theory Spec2Isabelle
  imports Complex_Main
begin

section \<open>JavaScript values\<close>

text \<open>
  The route handlers are TypeScript that runs as JavaScript: the types are erased, the
  upstream payload is whatever \<^verbatim>\<open>response.json()\<close> parsed, and \<^verbatim>\<open>a || b\<close> tests
  truthiness. The model therefore works on JavaScript values.

  A JavaScript string is a sequence of UTF-16 code units; \<open>str\<close> embeds an ASCII literal
  of the source.
\<close>

type_synonym jsstring = "nat list"

definition str :: "string \<Rightarrow> jsstring" where
  "str s = map of_char s"

text \<open>
  \<open>JNum\<close> holds a finite number, and \<open>JInfinity\<close> is what a JSON number beyond the
  range of a double parses to (\<open>True\<close> for the negative one). \<open>JBuiltin k\<close> is the
  built-in object or function that the property \<open>k\<close> of \<^verbatim>\<open>Object.prototype\<close> yields
  (for \<^verbatim>\<open>constructor\<close> the function \<^verbatim>\<open>Object\<close>); JSON never contains one, a
  property read can return one.
\<close>

datatype jsval =
    JUndefined
  | JNull
  | JBool bool
  | JNum rat
  | JInfinity bool
  | JStr jsstring
  | JArr "jsval list"
  | JObj "(jsstring \<times> jsval) list"
  | JBuiltin jsstring

text \<open>ToBoolean: what \<^verbatim>\<open>!v\<close>, \<^verbatim>\<open>v || w\<close> and \<^verbatim>\<open>v && w\<close> test.\<close>

fun truthy :: "jsval \<Rightarrow> bool" where
  "truthy JUndefined = False"
| "truthy JNull = False"
| "truthy (JBool b) = b"
| "truthy (JNum n) = (n \<noteq> 0)"
| "truthy (JInfinity negative) = True"
| "truthy (JStr s) = (s \<noteq> [])"
| "truthy (JArr xs) = True"
| "truthy (JObj fs) = True"
| "truthy (JBuiltin k) = True"

text \<open>\<^verbatim>\<open>a || b\<close>, for a \<open>b\<close> whose evaluation cannot throw.\<close>

definition or_else :: "jsval \<Rightarrow> jsval \<Rightarrow> jsval" where
  "or_else a b = (if truthy a then a else b)"

fun nullish :: "jsval \<Rightarrow> bool" where
  "nullish JUndefined = True"
| "nullish JNull = True"
| "nullish v = False"

text \<open>
  \<^verbatim>\<open>v.name\<close> for the fixed field names the handlers read from parsed JSON (\<^verbatim>\<open>id\<close>,
  \<^verbatim>\<open>status\<close>, \<^verbatim>\<open>progress\<close>, \<^verbatim>\<open>url\<close>, \<^verbatim>\<open>message\<close>, ...). None of them is a property of
  a built-in prototype, so an object yields its own field or \<^verbatim>\<open>undefined\<close>, and a
  number, boolean, string or array yields \<^verbatim>\<open>undefined\<close>. On \<^verbatim>\<open>undefined\<close> and
  \<^verbatim>\<open>null\<close> the read throws a TypeError: every caller tests \<open>nullish\<close> first.
\<close>

fun getProp :: "jsval \<Rightarrow> jsstring \<Rightarrow> jsval" where
  "getProp (JObj fs) k = (case map_of fs k of Some v \<Rightarrow> v | None \<Rightarrow> JUndefined)"
| "getProp v k = JUndefined"

text \<open>\<^verbatim>\<open>v?.name\<close>: \<^verbatim>\<open>undefined\<close> when \<open>v\<close> is nullish.\<close>

definition opt_prop :: "jsval \<Rightarrow> jsstring \<Rightarrow> jsval" where
  "opt_prop v k = (if nullish v then JUndefined else getProp v k)"

text \<open>
  \<^verbatim>\<open>v?.[0]\<close>: the first element of an array, the first code unit of a string, the
  field \<^verbatim>\<open>"0"\<close> of an object.
\<close>

fun opt_first :: "jsval \<Rightarrow> jsval" where
  "opt_first (JArr (x # xs)) = x"
| "opt_first (JStr (c # cs)) = JStr [c]"
| "opt_first (JObj fs) = getProp (JObj fs) (str ''0'')"
| "opt_first v = JUndefined"

subsection \<open>Errors\<close>

text \<open>
  Everything the server code throws. \<open>FetchFailed\<close> is the rejected \<^verbatim>\<open>fetch\<close>,
  \<open>InvalidJson\<close> the SyntaxError of \<^verbatim>\<open>response.json()\<close> and \<^verbatim>\<open>request.json()\<close>,
  \<open>TypeError\<close> a property read on \<^verbatim>\<open>null\<close>, a call of a method the value does not
  have, or a value with no string form where one is needed. The others are the
  \<^verbatim>\<open>new Error(...)\<close> of the source, with the interpolated values as arguments:
  \<open>VideoNotFound\<close> is \<^verbatim>\<open>'Video not found'\<close>, \<open>ApiError s m\<close> is
  \<^verbatim>\<open>`Sora API error: ${s} - ${m}`\<close> (\<^verbatim>\<open>SoraV2 API error\<close> in progress/route.ts),
  \<open>NotReady st\<close> is \<^verbatim>\<open>`Video is not ready for download. Current status: ${st}`\<close> and
  \<open>UrlNotAvailable\<close> is \<^verbatim>\<open>'Video URL not available'\<close>.
\<close>

datatype error =
    FetchFailed
  | InvalidJson
  | TypeError
  | VideoNotFound
  | ApiError nat jsval
  | NotReady jsval
  | UrlNotAvailable

subsection \<open>String forms and property names\<close>

text \<open>
  ToString, as a template literal and a computed property name apply it, throws a
  TypeError on an object that has a field \<^verbatim>\<open>toString\<close> of its own (a parsed JSON
  value is never a function, and the inherited \<^verbatim>\<open>valueOf\<close> returns the object), and on
  an array with such an element. Every other value has a string form.
\<close>

fun convertible :: "jsval \<Rightarrow> bool" where
  "convertible (JArr xs) = list_all convertible xs"
| "convertible (JObj fs) = (map_of fs (str ''toString'') = None)"
| "convertible v = True"

text \<open>An error whose message interpolates \<open>v\<close>: \<^verbatim>\<open>new Error(`... ${v}`)\<close>.\<close>

definition interpolating :: "jsval \<Rightarrow> error \<Rightarrow> error" where
  "interpolating v e = (if convertible v then e else TypeError)"

text \<open>
  The property name of a value that has a string form. A string is its own name, and an
  array of one element has the name of that element. \<open>None\<close> stands for the name of
  every other value (\<^verbatim>\<open>"undefined"\<close>, \<^verbatim>\<open>"null"\<close>, \<^verbatim>\<open>"true"\<close>, the digits of a number,
  \<^verbatim>\<open>"Infinity"\<close>,
  \<^verbatim>\<open>"[object Object]"\<close>, the empty name of \<^verbatim>\<open>[]\<close>, a name with a comma for a longer
  array): none of these names a property of a table of this program or of
  \<^verbatim>\<open>Object.prototype\<close>.
\<close>

fun propertyKey :: "jsval \<Rightarrow> jsstring option" where
  "propertyKey (JStr s) = Some s"
| "propertyKey (JArr [v]) = propertyKey v"
| "propertyKey v = None"

subsection \<open>Object literals used as lookup tables\<close>

text \<open>
  \<^verbatim>\<open>table[key]\<close> converts the key to a property name and then searches the table's own
  properties and, after them, its prototype \<^verbatim>\<open>Object.prototype\<close>, whose properties
  (ECMAScript 20.1.3 and Annex B) are listed here.
\<close>

definition objectPrototypeKeys :: "jsstring list" where
  "objectPrototypeKeys = map str
     [''constructor'', ''hasOwnProperty'', ''isPrototypeOf'', ''propertyIsEnumerable'',
      ''toLocaleString'', ''toString'', ''valueOf'', ''__proto__'',
      ''__defineGetter__'', ''__defineSetter__'', ''__lookupGetter__'', ''__lookupSetter__'']"

definition lookupKey :: "(jsstring \<times> jsval) list \<Rightarrow> jsstring \<Rightarrow> jsval" where
  "lookupKey own k =
     (case map_of own k of
        Some v \<Rightarrow> v
      | None \<Rightarrow> if k \<in> set objectPrototypeKeys then JBuiltin k else JUndefined)"

definition lookup :: "(jsstring \<times> jsval) list \<Rightarrow> jsval \<Rightarrow> error + jsval" where
  "lookup own key =
     (if \<not> convertible key then Inl TypeError
      else case propertyKey key of
             None \<Rightarrow> Inr JUndefined
           | Some k \<Rightarrow> Inr (lookupKey own k))"

section \<open>Status Normalizer\<close>

text \<open>
  \<^verbatim>\<open>mapSoraStatus\<close> of gen/route.ts (lines 159-170) and of the progress route in
  download/route.ts (lines 135-146): \<^verbatim>\<open>statusMap[status] || 'pending'\<close>.
\<close>

definition statusMap :: "(jsstring \<times> jsval) list" where
  "statusMap =
     [(str ''queued'', JStr (str ''pending'')),
      (str ''in_progress'', JStr (str ''processing'')),
      (str ''processing'', JStr (str ''processing'')),
      (str ''succeeded'', JStr (str ''completed'')),
      (str ''completed'', JStr (str ''completed'')),
      (str ''failed'', JStr (str ''failed'')),
      (str ''cancelled'', JStr (str ''failed''))]"

definition mapSoraStatus :: "jsval \<Rightarrow> error + jsval" where
  "mapSoraStatus status =
     (case lookup statusMap status of
        Inl e \<Rightarrow> Inl e
      | Inr v \<Rightarrow> Inr (or_else v (JStr (str ''pending''))))"

text \<open>The four internal lifecycle tokens.\<close>

definition lifecycle :: "jsval list" where
  "lifecycle = map (\<lambda>s. JStr (str s)) [''pending'', ''processing'', ''completed'', ''failed'']"

text \<open>
  The companion table of the progress route in download/route.ts (lines 170-178) and
  the progress it returns (line 183):
  \<^verbatim>\<open>data.progress || statusToProgress[data.status] || 0\<close>.
\<close>

definition statusToProgress :: "(jsstring \<times> jsval) list" where
  "statusToProgress =
     [(str ''queued'', JNum 0),
      (str ''in_progress'', JNum 50),
      (str ''processing'', JNum 50),
      (str ''succeeded'', JNum 100),
      (str ''completed'', JNum 100),
      (str ''failed'', JNum 0)]"

definition progressOf :: "jsval \<Rightarrow> error + jsval" where
  "progressOf data =
     (if truthy (getProp data (str ''progress'')) then Inr (getProp data (str ''progress''))
      else case lookup statusToProgress (getProp data (str ''status'')) of
             Inl e \<Rightarrow> Inl e
           | Inr v \<Rightarrow> Inr (or_else v (JNum 0)))"

section \<open>Upstream Client\<close>

text \<open>
  What \<^verbatim>\<open>fetch\<close> gives back: the promise rejects (no connection), or it resolves to a
  response with a status code, a status text and a payload. \<open>json\<close> is the payload as
  \<^verbatim>\<open>response.json()\<close> parses it, \<open>None\<close> when it is not JSON. \<^verbatim>\<open>response.ok\<close> is
  the Fetch standard's: a status from 200 to 299.
\<close>

record response =
  http_status :: nat
  statusText :: jsstring
  json :: "jsval option"

datatype fetched = Rejected | Responded response

definition ok :: "response \<Rightarrow> bool" where
  "ok r = (200 \<le> http_status r \<and> http_status r \<le> 299)"

text \<open>
  \<^verbatim>\<open>errorData = await response.json().catch(() => ({}))\<close> and the error thrown with
  the message taken from it. The OpenAI routes read \<^verbatim>\<open>errorData.error?.message ||
  errorData.message || response.statusText\<close>, the SoraV2 route
  \<^verbatim>\<open>errorData.message || response.statusText\<close>.
\<close>

definition errorData :: "response \<Rightarrow> jsval" where
  "errorData r = (case json r of None \<Rightarrow> JObj [] | Some v \<Rightarrow> v)"

definition apiError_openai :: "response \<Rightarrow> error" where
  "apiError_openai r =
     (if nullish (errorData r) then TypeError
      else
        (let errorMessage =
               or_else
                 (or_else (opt_prop (getProp (errorData r) (str ''error'')) (str ''message''))
                          (getProp (errorData r) (str ''message'')))
                 (JStr (statusText r))
         in interpolating errorMessage (ApiError (http_status r) errorMessage)))"

definition apiError_sora :: "response \<Rightarrow> error" where
  "apiError_sora r =
     (if nullish (errorData r) then TypeError
      else
        (let errorMessage = or_else (getProp (errorData r) (str ''message'')) (JStr (statusText r))
         in interpolating errorMessage (ApiError (http_status r) errorMessage)))"

subsection \<open>fetchProgress\<close>

record GenerationProgress =
  p_id :: jsval
  p_progress :: jsval
  p_status :: jsval
  p_currentStep :: jsval
  p_estimatedTimeRemaining :: jsval

text \<open>
  \<^verbatim>\<open>getProgressFromSoraV2\<close> of progress/route.ts (the SoraV2 endpoint, lines 49-81).
\<close>

definition getProgressFromSoraV2_sora :: "fetched \<Rightarrow> error + GenerationProgress" where
  "getProgressFromSoraV2_sora f =
     (case f of
        Rejected \<Rightarrow> Inl FetchFailed
      | Responded r \<Rightarrow>
          if \<not> ok r then
            (if http_status r = 404 then Inl VideoNotFound else Inl (apiError_sora r))
          else
            (case json r of
               None \<Rightarrow> Inl InvalidJson
             | Some data \<Rightarrow>
                 if nullish data then Inl TypeError
                 else Inr \<lparr>p_id = getProp data (str ''id''),
                           p_progress = or_else (getProp data (str ''progress'')) (JNum 0),
                           p_status = getProp data (str ''status''),
                           p_currentStep = getProp data (str ''current_step''),
                           p_estimatedTimeRemaining =
                             getProp data (str ''estimated_time_remaining'')\<rparr>))"

text \<open>
  \<^verbatim>\<open>getProgressFromSoraV2\<close> of the progress route in download/route.ts (the OpenAI
  endpoint, lines 148-192).
\<close>

definition getProgressFromSoraV2_openai :: "fetched \<Rightarrow> error + GenerationProgress" where
  "getProgressFromSoraV2_openai f =
     (case f of
        Rejected \<Rightarrow> Inl FetchFailed
      | Responded r \<Rightarrow>
          if \<not> ok r then
            (if http_status r = 404 then Inl VideoNotFound else Inl (apiError_openai r))
          else
            (case json r of
               None \<Rightarrow> Inl InvalidJson
             | Some data \<Rightarrow>
                 if nullish data then Inl TypeError
                 else
                   (case progressOf data of
                      Inl e \<Rightarrow> Inl e
                    | Inr progress \<Rightarrow>
                        (case mapSoraStatus (getProp data (str ''status'')) of
                           Inl e \<Rightarrow> Inl e
                         | Inr status \<Rightarrow>
                             Inr \<lparr>p_id = getProp data (str ''id''),
                                  p_progress = progress,
                                  p_status = status,
                                  p_currentStep =
                                    or_else (getProp data (str ''current_step''))
                                            (getProp data (str ''status'')),
                                  p_estimatedTimeRemaining =
                                    getProp data (str ''estimated_time_remaining'')\<rparr>))))"

subsection \<open>fetchStatus\<close>

record SoraVideoResponse =
  v_id :: jsval
  v_status :: jsval
  v_prompt :: jsval
  v_videoUrl :: jsval
  v_thumbnailUrl :: jsval
  v_duration :: jsval
  v_resolution :: jsval
  v_style :: jsval
  v_aspectRatio :: jsval
  v_createdAt :: jsval
  v_updatedAt :: jsval
  v_error :: jsval

text \<open>
  \<^verbatim>\<open>getVideoStatusFromSoraV2\<close> of gen/route.ts (lines 172-212). \<open>now\<close> is
  \<^verbatim>\<open>new Date().toISOString()\<close> at the time of the call.
\<close>

definition getVideoStatusFromSoraV2 :: "jsstring \<Rightarrow> fetched \<Rightarrow> error + SoraVideoResponse" where
  "getVideoStatusFromSoraV2 now f =
     (case f of
        Rejected \<Rightarrow> Inl FetchFailed
      | Responded r \<Rightarrow>
          if \<not> ok r then
            (if http_status r = 404 then Inl VideoNotFound else Inl (apiError_openai r))
          else
            (case json r of
               None \<Rightarrow> Inl InvalidJson
             | Some data \<Rightarrow>
                 if nullish data then Inl TypeError
                 else
                   (case mapSoraStatus (getProp data (str ''status'')) of
                      Inl e \<Rightarrow> Inl e
                    | Inr status \<Rightarrow>
                        Inr \<lparr>v_id = getProp data (str ''id''),
                             v_status = status,
                             v_prompt = or_else (getProp data (str ''prompt'')) (JStr []),
                             v_videoUrl =
                               or_else (getProp data (str ''url''))
                                       (getProp data (str ''video_url'')),
                             v_thumbnailUrl = getProp data (str ''thumbnail_url''),
                             v_duration = getProp data (str ''duration''),
                             v_resolution = getProp data (str ''resolution''),
                             v_style = getProp data (str ''style''),
                             v_aspectRatio = getProp data (str ''aspect_ratio''),
                             v_createdAt =
                               or_else (getProp data (str ''created_at'')) (JStr now),
                             v_updatedAt =
                               or_else (getProp data (str ''updated_at'')) (JStr now),
                             v_error = getProp data (str ''error'')\<rparr>)))"

subsection \<open>resolveDownloadUrl\<close>

text \<open>
  \<^verbatim>\<open>getVideoDownloadUrlFromSoraV2\<close> of download/route.ts (lines 48-85). The record is
  ready when \<^verbatim>\<open>data.status\<close> is the string \<^verbatim>\<open>succeeded\<close> or \<^verbatim>\<open>completed\<close>.
\<close>

definition terminalSuccess :: "jsval \<Rightarrow> bool" where
  "terminalSuccess st = (st = JStr (str ''succeeded'') \<or> st = JStr (str ''completed''))"

definition getVideoDownloadUrlFromSoraV2 :: "fetched \<Rightarrow> error + jsval" where
  "getVideoDownloadUrlFromSoraV2 f =
     (case f of
        Rejected \<Rightarrow> Inl FetchFailed
      | Responded r \<Rightarrow>
          if \<not> ok r then
            (if http_status r = 404 then Inl VideoNotFound else Inl (apiError_openai r))
          else
            (case json r of
               None \<Rightarrow> Inl InvalidJson
             | Some data \<Rightarrow>
                 if nullish data then Inl TypeError
                 else if \<not> terminalSuccess (getProp data (str ''status'')) then
                   Inl (interpolating (getProp data (str ''status''))
                          (NotReady (getProp data (str ''status''))))
                 else
                   (let videoUrl =
                          or_else
                            (or_else (getProp data (str ''url'')) (getProp data (str ''video_url'')))
                            (getProp data (str ''download_url''))
                    in if \<not> truthy videoUrl then Inl UrlNotAvailable else Inr videoUrl)))"

subsection \<open>submit\<close>

text \<open>The size tables of \<^verbatim>\<open>callSoraV2API\<close> (gen/route.ts, lines 93-105).\<close>

definition sizeMap :: "(jsstring \<times> jsval) list" where
  "sizeMap =
     [(str ''720p'', JStr (str ''1280x720'')),
      (str ''1080p'', JStr (str ''1920x1080'')),
      (str ''4k'', JStr (str ''3840x2160''))]"

definition aspectRatioSizeMap :: "(jsstring \<times> jsval) list" where
  "aspectRatioSizeMap =
     [(str ''16:9'', JObj [(str ''720p'', JStr (str ''1280x720'')),
                           (str ''1080p'', JStr (str ''1920x1080'')),
                           (str ''4k'', JStr (str ''3840x2160''))]),
      (str ''9:16'', JObj [(str ''720p'', JStr (str ''720x1280'')),
                           (str ''1080p'', JStr (str ''1080x1920'')),
                           (str ''4k'', JStr (str ''2160x3840''))]),
      (str ''1:1'', JObj [(str ''720p'', JStr (str ''720x720'')),
                          (str ''1080p'', JStr (str ''1080x1080'')),
                          (str ''4k'', JStr (str ''2160x2160''))])]"

text \<open>
  \<^verbatim>\<open>row?.[key]\<close> for what \<^verbatim>\<open>aspectRatioSizeMap[aspectRatio]\<close> can be: a row of the
  table, \<^verbatim>\<open>undefined\<close>, or a built-in inherited from \<^verbatim>\<open>Object.prototype\<close>. What a
  property read on such a built-in does belongs to the JavaScript runtime and not to
  this repository: it is the parameter \<open>builtinProp\<close>. The read can throw
  (\<^verbatim>\<open>Object['caller']\<close> runs the accessor of \<^verbatim>\<open>Function.prototype\<close>, which throws a
  TypeError), so the parameter returns an error or a value.
\<close>

definition opt_index ::
  "(jsstring \<Rightarrow> jsval \<Rightarrow> error + jsval) \<Rightarrow> jsval \<Rightarrow> jsval \<Rightarrow> error + jsval" where
  "opt_index builtinProp row key =
     (case row of
        JObj own \<Rightarrow> lookup own key
      | JBuiltin b \<Rightarrow> if convertible key then builtinProp b key else Inl TypeError
      | _ \<Rightarrow> Inr JUndefined)"

text \<open>
  \<^verbatim>\<open>aspectRatioSizeMap[aspectRatio]?.[resolution] || sizeMap[resolution] || '1920x1080'\<close>
  (line 109).
\<close>

definition sizeFor ::
  "(jsstring \<Rightarrow> jsval \<Rightarrow> error + jsval) \<Rightarrow> jsval \<Rightarrow> jsval \<Rightarrow> error + jsval" where
  "sizeFor builtinProp aspectRatio resolution =
     (case lookup aspectRatioSizeMap aspectRatio of
        Inl e \<Rightarrow> Inl e
      | Inr row \<Rightarrow>
          (case opt_index builtinProp row resolution of
             Inl e \<Rightarrow> Inl e
           | Inr first \<Rightarrow>
               if truthy first then Inr first
               else
                 (case lookup sizeMap resolution of
                    Inl e \<Rightarrow> Inl e
                  | Inr second \<Rightarrow> Inr (or_else second (JStr (str ''1920x1080''))))))"

text \<open>
  \<^verbatim>\<open>String.prototype.trim\<close> removes the code units of WhiteSpace and LineTerminator
  (ECMAScript 12.2 and 12.3) from both ends.
\<close>

definition isWhiteSpace :: "nat \<Rightarrow> bool" where
  "isWhiteSpace c =
     (c \<in> {9, 10, 11, 12, 13, 32, 160, 5760, 8232, 8233, 8239, 8287, 12288, 65279}
      \<or> (8192 \<le> c \<and> c \<le> 8202))"

definition trim :: "jsstring \<Rightarrow> jsstring" where
  "trim s = rev (dropWhile isWhiteSpace (rev (dropWhile isWhiteSpace s)))"

text \<open>
  The body of the creation call, before \<^verbatim>\<open>JSON.stringify\<close>; \<^verbatim>\<open>model: 'sora'\<close> and
  \<^verbatim>\<open>n: 1\<close> are constants.
\<close>

record generation_call =
  c_prompt :: jsstring
  c_size :: jsval
  c_duration :: jsval

text \<open>\<^verbatim>\<open>const videoData = data.data?.[0] || data\<close>\<close>

definition videoData :: "jsval \<Rightarrow> jsval" where
  "videoData data = or_else (opt_first (getProp data (str ''data''))) data"

text \<open>
  \<^verbatim>\<open>callSoraV2API\<close> of gen/route.ts (lines 91-156). \<open>upstream\<close> is the generation
  service: what it answers to a creation call. The result comes with the list of
  calls made. \<^verbatim>\<open>request.prompt.trim()\<close> throws a TypeError unless the prompt is a
  string.
\<close>

definition callSoraV2API ::
  "(jsstring \<Rightarrow> jsval \<Rightarrow> error + jsval) \<Rightarrow> jsstring \<Rightarrow> jsval \<Rightarrow> (generation_call \<Rightarrow> fetched)
     \<Rightarrow> (error + SoraVideoResponse) \<times> generation_call list" where
  "callSoraV2API builtinProp now request upstream =
     (if nullish request then (Inl TypeError, [])
      else
        (let resolution = or_else (getProp request (str ''resolution'')) (JStr (str ''1080p''));
             aspectRatio = or_else (getProp request (str ''aspectRatio'')) (JStr (str ''16:9''))
         in case sizeFor builtinProp aspectRatio resolution of
              Inl e \<Rightarrow> (Inl e, [])
            | Inr size' \<Rightarrow>
                (case getProp request (str ''prompt'') of
                   JStr prompt \<Rightarrow>
                     (let call = \<lparr>c_prompt = trim prompt, c_size = size',
                                   c_duration =
                                     or_else (getProp request (str ''duration'')) (JNum 10)\<rparr>
                      in (case upstream call of
                            Rejected \<Rightarrow> Inl FetchFailed
                          | Responded r \<Rightarrow>
                              if \<not> ok r then Inl (apiError_openai r)
                              else
                                (case json r of
                                   None \<Rightarrow> Inl InvalidJson
                                 | Some data \<Rightarrow>
                                     if nullish data then Inl TypeError
                                     else
                                       (case mapSoraStatus
                                               (getProp (videoData data) (str ''status'')) of
                                          Inl e \<Rightarrow> Inl e
                                        | Inr status \<Rightarrow>
                                            Inr
                                              \<lparr>v_id = getProp (videoData data) (str ''id''),
                                               v_status = status,
                                               v_prompt = JStr (trim prompt),
                                               v_videoUrl =
                                                 or_else (getProp (videoData data) (str ''url''))
                                                   (getProp (videoData data) (str ''video_url'')),
                                               v_thumbnailUrl =
                                                 getProp (videoData data) (str ''thumbnail_url''),
                                               v_duration =
                                                 or_else (getProp request (str ''duration''))
                                                   (JNum 10),
                                               v_resolution = resolution,
                                               v_style =
                                                 or_else (getProp request (str ''style''))
                                                   (JStr (str ''realistic'')),
                                               v_aspectRatio = aspectRatio,
                                               v_createdAt =
                                                 or_else
                                                   (getProp (videoData data) (str ''created_at''))
                                                   (JStr now),
                                               v_updatedAt =
                                                 or_else
                                                   (getProp (videoData data) (str ''updated_at''))
                                                   (JStr now),
                                               v_error =
                                                 getProp (videoData data) (str ''error'')\<rparr>)),
                          [call]))
                 | _ \<Rightarrow> (Inl TypeError, []))))"

section \<open>Request Handlers\<close>

text \<open>
  A handler answers with \<^verbatim>\<open>NextResponse.json(envelope, {status})\<close>; the status is 200
  when none is given. The error text of a failure envelope is a literal of the source
  or the message of the error caught.
\<close>

datatype errtext = Literal string | MessageOf error

datatype payload = ProgressData GenerationProgress | VideoRecord SoraVideoResponse

datatype envelope = Failed errtext | Succeeded payload

datatype reply = JsonReply (code: nat) (envelope: envelope)

text \<open>\<^verbatim>\<open>!OPENAI_API_KEY\<close>, \<^verbatim>\<open>!SORA_API_KEY\<close>, \<^verbatim>\<open>!videoId\<close>: unset or empty.\<close>

fun unset :: "jsstring option \<Rightarrow> bool" where
  "unset None = True"
| "unset (Some s) = (s = [])"

text \<open>
  \<^verbatim>\<open>!body.prompt || typeof body.prompt !== 'string' || body.prompt.trim().length === 0\<close>
\<close>

definition invalidPrompt :: "jsval \<Rightarrow> bool" where
  "invalidPrompt p =
     (if \<not> truthy p then True
      else case p of JStr s \<Rightarrow> trim s = [] | _ \<Rightarrow> True)"

text \<open>
  \<^verbatim>\<open>POST\<close> of gen/route.ts. \<open>body\<close> is \<^verbatim>\<open>await request.json()\<close>, \<open>None\<close> when the
  request body is not JSON.
\<close>

definition POST ::
  "(jsstring \<Rightarrow> jsval \<Rightarrow> error + jsval) \<Rightarrow> jsstring \<Rightarrow> jsstring option \<Rightarrow> jsval option
     \<Rightarrow> (generation_call \<Rightarrow> fetched) \<Rightarrow> reply \<times> generation_call list" where
  "POST builtinProp now apiKey body upstream =
     (case body of
        None \<Rightarrow> (JsonReply 500 (Failed (MessageOf InvalidJson)), [])
      | Some b \<Rightarrow>
          if nullish b then (JsonReply 500 (Failed (MessageOf TypeError)), [])
          else if invalidPrompt (getProp b (str ''prompt'')) then
            (JsonReply 400
               (Failed (Literal ''Prompt is required and must be a non-empty string'')), [])
          else if unset apiKey then
            (JsonReply 500 (Failed (Literal ''OpenAI API key is not configured'')), [])
          else
            (case callSoraV2API builtinProp now b upstream of
               (Inl e, calls) \<Rightarrow> (JsonReply 500 (Failed (MessageOf e)), calls)
             | (Inr v, calls) \<Rightarrow> (JsonReply 200 (Succeeded (VideoRecord v)), calls)))"

text \<open>
  \<^verbatim>\<open>GET\<close> of progress/route.ts (SoraV2). \<open>videoId\<close> is \<^verbatim>\<open>searchParams.get('id')\<close>,
  \<open>upstream\<close> what the service answers for an id.
\<close>

definition GET_progress_sora ::
  "jsstring option \<Rightarrow> jsstring option \<Rightarrow> (jsstring \<Rightarrow> fetched) \<Rightarrow> reply" where
  "GET_progress_sora apiKey videoId upstream =
     (case videoId of
        None \<Rightarrow> JsonReply 400 (Failed (Literal ''Video ID is required''))
      | Some vid \<Rightarrow>
          if vid = [] then JsonReply 400 (Failed (Literal ''Video ID is required''))
          else if unset apiKey then
            JsonReply 500 (Failed (Literal ''SoraV2 API key is not configured''))
          else
            (case getProgressFromSoraV2_sora (upstream vid) of
               Inl e \<Rightarrow> JsonReply 500 (Failed (Literal ''Internal server error''))
             | Inr progress \<Rightarrow> JsonReply 200 (Succeeded (ProgressData progress))))"

text \<open>\<^verbatim>\<open>GET\<close> of the progress route in download/route.ts (OpenAI), lines 96-132.\<close>

definition GET_progress_openai ::
  "jsstring option \<Rightarrow> jsstring option \<Rightarrow> (jsstring \<Rightarrow> fetched) \<Rightarrow> reply" where
  "GET_progress_openai apiKey videoId upstream =
     (case videoId of
        None \<Rightarrow> JsonReply 400 (Failed (Literal ''Video ID is required''))
      | Some vid \<Rightarrow>
          if vid = [] then JsonReply 400 (Failed (Literal ''Video ID is required''))
          else if unset apiKey then
            JsonReply 500 (Failed (Literal ''OpenAI API key is not configured''))
          else
            (case getProgressFromSoraV2_openai (upstream vid) of
               Inl e \<Rightarrow> JsonReply 500 (Failed (MessageOf e))
             | Inr progress \<Rightarrow> JsonReply 200 (Succeeded (ProgressData progress))))"

section \<open>Polling Controller\<close>

text \<open>
  The effect of \<^verbatim>\<open>ProgressTracker\<close> (part_001, lines 16-59). JavaScript runs one task
  at a time, so an activation is a sequence of events: the interval timer fires, a
  pending \<^verbatim>\<open>SoraVideoAPI.getProgress\<close> settles, React runs the cleanup. The state of
  an activation is the closure's flag and timer, the calls that have not settled, and
  what an observer sees: the component's \<^verbatim>\<open>progress\<close> and \<^verbatim>\<open>error\<close> and the
  number of times \<^verbatim>\<open>onComplete\<close> was called. \<^verbatim>\<open>onComplete\<close> itself is the
  parent's; it is taken to return normally.

  \<^verbatim>\<open>SoraVideoAPI.getProgress\<close> is imported from \<^verbatim>\<open>@/lib/api\<close>; its promise
  resolves to an \<^verbatim>\<open>ApiResponse<GenerationProgress>\<close> or rejects. \<open>Reject m\<close> carries the
  message when the reason is an \<^verbatim>\<open>Error\<close>.
\<close>

record ApiResponse =
  r_success :: bool
  r_data :: "GenerationProgress option"
  r_error :: "jsstring option"

datatype event = Tick | Resolve ApiResponse | Reject "jsstring option" | Cleanup

record tracker =
  isCancelled :: bool
  interval :: bool
  inFlight :: nat
  fetches :: nat
  progress :: "GenerationProgress option"
  error :: "jsstring option"
  completions :: nat

text \<open>
  The effect body for the component state \<open>p\<close>, \<open>e\<close> and \<open>n\<close> callbacks so far:
  nothing for an empty \<^verbatim>\<open>videoId\<close>, else the flag, the first \<^verbatim>\<open>fetchProgress()\<close> and
  \<^verbatim>\<open>setInterval(fetchProgress, 1000)\<close>.
\<close>

definition activate ::
  "jsstring \<Rightarrow> GenerationProgress option \<Rightarrow> jsstring option \<Rightarrow> nat \<Rightarrow> tracker" where
  "activate videoId p e n =
     (if videoId = [] then
        \<lparr>isCancelled = False, interval = False, inFlight = 0, fetches = 0,
         progress = p, error = e, completions = n\<rparr>
      else
        \<lparr>isCancelled = False, interval = True, inFlight = 1, fetches = 1,
         progress = p, error = e, completions = n\<rparr>)"

text \<open>\<^verbatim>\<open>fetchProgress\<close> up to its \<^verbatim>\<open>await\<close>.\<close>

definition fetchProgress_start :: "tracker \<Rightarrow> tracker" where
  "fetchProgress_start s =
     (if isCancelled s then s
      else s\<lparr>inFlight := inFlight s + 1, fetches := fetches s + 1\<rparr>)"

text \<open>\<^verbatim>\<open>response.error || 'Failed to fetch progress'\<close>\<close>

definition responseError :: "ApiResponse \<Rightarrow> jsstring" where
  "responseError response =
     (case r_error response of
        None \<Rightarrow> str ''Failed to fetch progress''
      | Some m \<Rightarrow> if m = [] then str ''Failed to fetch progress'' else m)"

text \<open>
  \<^verbatim>\<open>fetchProgress\<close> after the \<^verbatim>\<open>await\<close>, when the call resolved. The test
  \<^verbatim>\<open>response.success && response.data\<close> holds when \<open>r_success\<close> does and the data
  are there.
\<close>

definition fetchProgress_resolved :: "tracker \<Rightarrow> ApiResponse \<Rightarrow> tracker" where
  "fetchProgress_resolved s response =
     (if isCancelled s then s
      else
        (case (r_success response, r_data response) of
           (True, Some d) \<Rightarrow>
             if p_status d = JStr (str ''completed'') then
               s\<lparr>progress := Some d, completions := completions s + 1, isCancelled := True\<rparr>
             else if p_status d = JStr (str ''failed'') then
               s\<lparr>progress := Some d, error := Some (str ''Video generation failed''),
                 isCancelled := True\<rparr>
             else s\<lparr>progress := Some d\<rparr>
         | _ \<Rightarrow> s\<lparr>error := Some (responseError response)\<rparr>))"

text \<open>The \<^verbatim>\<open>catch\<close> of \<^verbatim>\<open>fetchProgress\<close>, when the call rejected.\<close>

definition fetchProgress_rejected :: "tracker \<Rightarrow> jsstring option \<Rightarrow> tracker" where
  "fetchProgress_rejected s err =
     (if isCancelled s then s
      else s\<lparr>error := Some (case err of
                              None \<Rightarrow> str ''An unexpected error occurred''
                            | Some m \<Rightarrow> m)\<rparr>)"

text \<open>
  One event. The timer fires only while it is set, and only a call in flight settles.
\<close>

fun step :: "tracker \<Rightarrow> event \<Rightarrow> tracker" where
  "step s Tick = (if interval s then fetchProgress_start s else s)"
| "step s (Resolve response) =
     (if inFlight s = 0 then s
      else fetchProgress_resolved (s\<lparr>inFlight := inFlight s - 1\<rparr>) response)"
| "step s (Reject err) =
     (if inFlight s = 0 then s
      else fetchProgress_rejected (s\<lparr>inFlight := inFlight s - 1\<rparr>) err)"
| "step s Cleanup = s\<lparr>isCancelled := True, interval := False\<rparr>"

definition run :: "tracker \<Rightarrow> event list \<Rightarrow> tracker" where
  "run s es = foldl step s es"

section \<open>Facts about the values\<close>

lemma str_eq_iff [simp]: "str a = str b \<longleftrightarrow> a = b"
  unfolding str_def by (simp add: inj_of_char)

lemma str_Nil [simp]: "str s = [] \<longleftrightarrow> s = []"
  by (simp add: str_def)

lemma or_else_falsy: "\<not> truthy a \<Longrightarrow> or_else a b = b"
  by (simp add: or_else_def)

lemma or_else_truthy: "truthy a \<Longrightarrow> or_else a b = a"
  by (simp add: or_else_def)

lemma lookup_str: "lookup own (JStr k) = Inr (lookupKey own k)"
  by (simp add: lookup_def)

lemma lookup_returns: "convertible key \<Longrightarrow> \<exists>v. lookup own key = Inr v"
  by (simp add: lookup_def split: option.split)

lemma lookup_key:
  "convertible key \<Longrightarrow> propertyKey key = Some k \<Longrightarrow> lookup own key = Inr (lookupKey own k)"
  by (simp add: lookup_def)

lemma lookup_no_key:
  "convertible key \<Longrightarrow> propertyKey key = None \<Longrightarrow> lookup own key = Inr JUndefined"
  by (simp add: lookup_def)

lemma lookupKey_own: "map_of own k = Some v \<Longrightarrow> lookupKey own k = v"
  by (simp add: lookupKey_def)

lemma lookupKey_inherited:
  "map_of own k = None \<Longrightarrow> k \<in> set objectPrototypeKeys \<Longrightarrow> lookupKey own k = JBuiltin k"
  by (simp add: lookupKey_def)

lemma lookupKey_absent:
  "map_of own k = None \<Longrightarrow> k \<notin> set objectPrototypeKeys \<Longrightarrow> lookupKey own k = JUndefined"
  by (simp add: lookupKey_def)

section \<open>The Status Normalizer on strings\<close>

text \<open>On a string \<^verbatim>\<open>mapSoraStatus\<close> always returns: it does not throw.\<close>

lemma mapSoraStatus_str:
  "mapSoraStatus (JStr s) = Inr (or_else (lookupKey statusMap s) (JStr (str ''pending'')))"
  by (simp add: mapSoraStatus_def lookup_str)

lemma mapSoraStatus_table:
  "mapSoraStatus (JStr (str ''queued'')) = Inr (JStr (str ''pending''))"
  "mapSoraStatus (JStr (str ''in_progress'')) = Inr (JStr (str ''processing''))"
  "mapSoraStatus (JStr (str ''processing'')) = Inr (JStr (str ''processing''))"
  "mapSoraStatus (JStr (str ''succeeded'')) = Inr (JStr (str ''completed''))"
  "mapSoraStatus (JStr (str ''completed'')) = Inr (JStr (str ''completed''))"
  "mapSoraStatus (JStr (str ''failed'')) = Inr (JStr (str ''failed''))"
  "mapSoraStatus (JStr (str ''cancelled'')) = Inr (JStr (str ''failed''))"
  by (simp_all add: mapSoraStatus_str lookupKey_def statusMap_def or_else_def)

lemma statusMap_values:
  "map_of statusMap k = Some v \<Longrightarrow> v \<in> set lifecycle \<and> truthy v"
  by (auto simp: statusMap_def lifecycle_def split: if_splits)

lemma mapSoraStatus_key:
  "convertible st \<Longrightarrow> propertyKey st = Some k \<Longrightarrow>
     mapSoraStatus st = Inr (or_else (lookupKey statusMap k) (JStr (str ''pending'')))"
  by (simp add: mapSoraStatus_def lookup_key)

lemma pending_lifecycle: "JStr (str ''pending'') \<in> set lifecycle"
  by (simp add: lifecycle_def)

text \<open>
  A status that has a string form and whose property name is not inherited from
  \<^verbatim>\<open>Object.prototype\<close> is mapped to one of the four tokens.
\<close>

lemma mapSoraStatus_lifecycle:
  assumes "convertible st"
    and "\<forall>k \<in> set objectPrototypeKeys. propertyKey st \<noteq> Some k"
  shows "\<exists>v. mapSoraStatus st = Inr v \<and> v \<in> set lifecycle"
proof (cases "propertyKey st")
  case None
  with assms(1) show ?thesis
    by (simp add: mapSoraStatus_def lookup_no_key or_else_def pending_lifecycle)
next
  case (Some k)
  with assms(2) have nk: "k \<notin> set objectPrototypeKeys" by auto
  show ?thesis
  proof (cases "map_of statusMap k")
    case None
    with nk Some assms(1) show ?thesis
      by (simp add: mapSoraStatus_key lookupKey_absent or_else_def pending_lifecycle)
  next
    case (Some v)
    with \<open>propertyKey st = Some k\<close> assms(1) statusMap_values[OF Some] show ?thesis
      by (simp add: mapSoraStatus_key lookupKey_own or_else_def)
  qed
qed

text \<open>
  When the property name is no row of the table either, the status is mapped to
  \<^verbatim>\<open>pending\<close>.
\<close>

lemma mapSoraStatus_no_row:
  assumes "convertible st"
    and "\<forall>k \<in> set objectPrototypeKeys. propertyKey st \<noteq> Some k"
    and "\<forall>k \<in> set (map fst statusMap). propertyKey st \<noteq> Some k"
  shows "mapSoraStatus st = Inr (JStr (str ''pending''))"
proof (cases "propertyKey st")
  case None
  with assms(1) show ?thesis
    by (simp add: mapSoraStatus_def lookup_no_key or_else_def)
next
  case (Some k)
  with assms(2,3) have "k \<notin> set objectPrototypeKeys" and "k \<notin> set (map fst statusMap)"
    by auto
  then have "lookupKey statusMap k = JUndefined"
    by (simp add: lookupKey_absent map_of_eq_None_iff)
  with Some assms(1) show ?thesis by (simp add: mapSoraStatus_key or_else_def)
qed

text \<open>
  A string that is neither a key of the table nor a property name of
  \<^verbatim>\<open>Object.prototype\<close> is mapped to \<^verbatim>\<open>pending\<close>.
\<close>

lemma mapSoraStatus_unrecognized:
  assumes "s \<notin> set (map str [''queued'', ''in_progress'', ''processing'', ''succeeded'',
                               ''completed'', ''failed'', ''cancelled''])"
    and "s \<notin> set objectPrototypeKeys"
  shows "mapSoraStatus (JStr s) = Inr (JStr (str ''pending''))"
proof -
  from assms(1) have "map_of statusMap s = None"
    by (simp add: statusMap_def)
  with assms(2) show ?thesis
    by (simp add: mapSoraStatus_str lookupKey_absent or_else_def)
qed

text \<open>A property name of \<^verbatim>\<open>Object.prototype\<close> is mapped to the inherited built-in.\<close>

lemma mapSoraStatus_inherited:
  assumes "k \<in> set objectPrototypeKeys"
  shows "mapSoraStatus (JStr k) = Inr (JBuiltin k)"
proof -
  from assms have "map_of statusMap k = None"
    by (auto simp: statusMap_def objectPrototypeKeys_def)
  with assms show ?thesis
    by (simp add: mapSoraStatus_str lookupKey_inherited or_else_def)
qed

text \<open>A status with no string form makes the lookup throw.\<close>

lemma mapSoraStatus_unconvertible: "\<not> convertible st \<Longrightarrow> mapSoraStatus st = Inl TypeError"
  by (simp add: mapSoraStatus_def lookup_def)

text \<open>
  C2. The claim: for every input string \<^verbatim>\<open>mapSoraStatus\<close> returns the state of the
  table, and \<^verbatim>\<open>pending\<close> for every string the table does not list. It never throws
  on a string (\<open>mapSoraStatus_str\<close>), the seven rows hold (\<open>mapSoraStatus_table\<close>), and
  so does the fallback for a string that names no property of \<^verbatim>\<open>Object.prototype\<close>
  (\<open>mapSoraStatus_unrecognized\<close>). On the string \<^verbatim>\<open>constructor\<close> the code does not do
  what the claim says: \<^verbatim>\<open>statusMap['constructor']\<close> is the inherited function
  \<^verbatim>\<open>Object\<close>, which is truthy, so \<^verbatim>\<open>|| 'pending'\<close> is not taken and the function is
  returned. It is none of the four tokens of the declared return type.
\<close>

theorem mapSoraStatus_constructor:
  "mapSoraStatus (JStr (str ''constructor'')) = Inr (JBuiltin (str ''constructor''))
   \<and> mapSoraStatus (JStr (str ''constructor'')) \<noteq> Inr (JStr (str ''pending''))
   \<and> JBuiltin (str ''constructor'') \<notin> set lifecycle"
  by (simp add: mapSoraStatus_str lookupKey_def statusMap_def objectPrototypeKeys_def
      or_else_def lifecycle_def)

section \<open>The progress value\<close>

lemma getProgress_sora_returns:
  assumes "ok r" "json r = Some data" "\<not> nullish data"
  shows "getProgressFromSoraV2_sora (Responded r) =
     Inr \<lparr>p_id = getProp data (str ''id''),
          p_progress = or_else (getProp data (str ''progress'')) (JNum 0),
          p_status = getProp data (str ''status''),
          p_currentStep = getProp data (str ''current_step''),
          p_estimatedTimeRemaining = getProp data (str ''estimated_time_remaining'')\<rparr>"
  using assms by (simp add: getProgressFromSoraV2_sora_def)

lemma getProgress_openai_returns:
  assumes "ok r" "json r = Some data" "\<not> nullish data"
    and "progressOf data = Inr pr" "mapSoraStatus (getProp data (str ''status'')) = Inr st"
  shows "getProgressFromSoraV2_openai (Responded r) =
     Inr \<lparr>p_id = getProp data (str ''id''),
          p_progress = pr,
          p_status = st,
          p_currentStep =
            or_else (getProp data (str ''current_step'')) (getProp data (str ''status'')),
          p_estimatedTimeRemaining = getProp data (str ''estimated_time_remaining'')\<rparr>"
  using assms by (simp add: getProgressFromSoraV2_openai_def)

lemma mapSoraStatus_returns: "convertible st \<Longrightarrow> \<exists>v. mapSoraStatus st = Inr v"
  using lookup_returns[of st statusMap] by (auto simp: mapSoraStatus_def)

lemma progressOf_returns:
  "convertible (getProp data (str ''status'')) \<Longrightarrow> \<exists>v. progressOf data = Inr v"
  using lookup_returns[of "getProp data (str ''status'')" statusToProgress]
  by (auto simp: progressOf_def)

text \<open>With no truthy progress from upstream, the progress is derived from the status.\<close>

lemma progressOf_derived:
  "\<not> truthy (getProp data (str ''progress'')) \<Longrightarrow> getProp data (str ''status'') = JStr s \<Longrightarrow>
     progressOf data = Inr (or_else (lookupKey statusToProgress s) (JNum 0))"
  by (simp add: progressOf_def lookup_str)

lemma derived_progress_table:
  "or_else (lookupKey statusToProgress (str ''queued'')) (JNum 0) = JNum 0"
  "or_else (lookupKey statusToProgress (str ''in_progress'')) (JNum 0) = JNum 50"
  "or_else (lookupKey statusToProgress (str ''processing'')) (JNum 0) = JNum 50"
  "or_else (lookupKey statusToProgress (str ''succeeded'')) (JNum 0) = JNum 100"
  "or_else (lookupKey statusToProgress (str ''completed'')) (JNum 0) = JNum 100"
  "or_else (lookupKey statusToProgress (str ''failed'')) (JNum 0) = JNum 0"
  by (simp_all add: lookupKey_def statusToProgress_def or_else_def)

lemma derived_progress_other:
  assumes "s \<notin> set (map str [''queued'', ''in_progress'', ''processing'', ''succeeded'',
                               ''completed'', ''failed''])"
    and "s \<notin> set objectPrototypeKeys"
  shows "or_else (lookupKey statusToProgress s) (JNum 0) = JNum 0"
proof -
  from assms(1) have "map_of statusToProgress s = None"
    by (simp add: statusToProgress_def)
  with assms(2) show ?thesis
    by (simp add: lookupKey_absent or_else_def)
qed

text \<open>
  C8. The claim: with no progress value from upstream, the progress route of
  download/route.ts derives the progress from the status token by the table, and 0 for
  any other token. The six rows hold (\<open>progressOf_derived\<close>, \<open>derived_progress_table\<close>),
  and so does the 0 for a token that names no property of \<^verbatim>\<open>Object.prototype\<close>
  (\<open>derived_progress_other\<close>). On the token \<^verbatim>\<open>constructor\<close> the code does not do what
  the claim says: \<^verbatim>\<open>statusToProgress['constructor']\<close> is the inherited function
  \<^verbatim>\<open>Object\<close>, which is truthy, so \<^verbatim>\<open>|| 0\<close> is not taken and the returned progress is
  that function, not 0.
\<close>

theorem progress_of_constructor_status:
  "getProgressFromSoraV2_openai
     (Responded \<lparr>http_status = 200, statusText = str ''OK'',
                 json = Some (JObj [(str ''id'', JStr (str ''v1'')),
                                    (str ''status'', JStr (str ''constructor''))])\<rparr>)
   = Inr \<lparr>p_id = JStr (str ''v1''),
          p_progress = JBuiltin (str ''constructor''),
          p_status = JBuiltin (str ''constructor''),
          p_currentStep = JStr (str ''constructor''),
          p_estimatedTimeRemaining = JUndefined\<rparr>"
  by (simp add: getProgressFromSoraV2_openai_def ok_def progressOf_def mapSoraStatus_str
      lookup_str lookupKey_def statusMap_def statusToProgress_def objectPrototypeKeys_def
      or_else_def)

text \<open>
  C10. In both progress implementations a falsy upstream progress (0 as much as a
  missing one) falls through to the next alternative: the OpenAI route returns what the
  status heuristic gives, 50 for \<^verbatim>\<open>in_progress\<close>, and the SoraV2 route returns 0.
\<close>

theorem falsy_progress_falls_through:
  assumes "ok r" "json r = Some data" "\<not> nullish data"
    and "\<not> truthy (getProp data (str ''progress''))"
    and "convertible (getProp data (str ''status''))"
  shows "(\<exists>p v. getProgressFromSoraV2_openai (Responded r) = Inr p
            \<and> lookup statusToProgress (getProp data (str ''status'')) = Inr v
            \<and> p_progress p = or_else v (JNum 0)
            \<and> (getProp data (str ''status'') = JStr (str ''in_progress'')
                 \<longrightarrow> p_progress p = JNum 50))
       \<and> (\<exists>p. getProgressFromSoraV2_sora (Responded r) = Inr p \<and> p_progress p = JNum 0)"
proof -
  from lookup_returns[OF assms(5)] obtain v where
    v: "lookup statusToProgress (getProp data (str ''status'')) = Inr v" by blast
  with assms(4) have pr: "progressOf data = Inr (or_else v (JNum 0))"
    by (simp add: progressOf_def)
  from mapSoraStatus_returns[OF assms(5)] obtain st where
    st: "mapSoraStatus (getProp data (str ''status'')) = Inr st" by blast
  have fifty: "getProp data (str ''status'') = JStr (str ''in_progress'')
      \<longrightarrow> or_else v (JNum 0) = JNum 50"
    using v by (auto simp: lookup_str derived_progress_table)
  have a: "\<exists>p v. getProgressFromSoraV2_openai (Responded r) = Inr p
            \<and> lookup statusToProgress (getProp data (str ''status'')) = Inr v
            \<and> p_progress p = or_else v (JNum 0)
            \<and> (getProp data (str ''status'') = JStr (str ''in_progress'')
                 \<longrightarrow> p_progress p = JNum 50)"
    using getProgress_openai_returns[OF assms(1-3) pr st] v fifty by simp
  have b: "\<exists>p. getProgressFromSoraV2_sora (Responded r) = Inr p \<and> p_progress p = JNum 0"
    using assms(4) by (simp add: getProgress_sora_returns[OF assms(1-3)] or_else_def)
  from a b show ?thesis by blast
qed

theorem falsy_progress_falls_through_witness:
  "(\<exists>p. getProgressFromSoraV2_openai
            (Responded \<lparr>http_status = 200, statusText = str ''OK'',
               json = Some (JObj [(str ''progress'', JNum 0),
                                  (str ''status'', JStr (str ''in_progress''))])\<rparr>) = Inr p
        \<and> p_progress p = JNum 50)
   \<and> (\<exists>p. getProgressFromSoraV2_sora
            (Responded \<lparr>http_status = 200, statusText = str ''OK'',
               json = Some (JObj [(str ''progress'', JNum 0),
                                  (str ''status'', JStr (str ''in_progress''))])\<rparr>) = Inr p
        \<and> p_progress p = JNum 0)"
  using falsy_progress_falls_through
    [of "\<lparr>http_status = 200, statusText = str ''OK'',
          json = Some (JObj [(str ''progress'', JNum 0),
                             (str ''status'', JStr (str ''in_progress''))])\<rparr>"
        "JObj [(str ''progress'', JNum 0), (str ''status'', JStr (str ''in_progress''))]"]
  by (auto simp: ok_def)

section \<open>The status of the returned records\<close>

lemma getVideoStatus_status:
  assumes "ok r" "json r = Some data" "\<not> nullish data"
    and "mapSoraStatus (getProp data (str ''status'')) = Inr st"
  shows "\<exists>v. getVideoStatusFromSoraV2 now (Responded r) = Inr v \<and> v_status v = st"
  using assms by (simp add: getVideoStatusFromSoraV2_def)

lemma sizeFor_default:
  "sizeFor builtinProp (JStr (str ''16:9'')) (JStr (str ''1080p'')) = Inr (JStr (str ''1920x1080''))"
  by (simp add: sizeFor_def opt_index_def lookup_str lookupKey_def aspectRatioSizeMap_def)

lemma callSoraV2API_status:
  assumes "ok r" "json r = Some data" "\<not> nullish data"
    and "mapSoraStatus (getProp (videoData data) (str ''status'')) = Inr st"
    and "sizeFor builtinProp
           (or_else (getProp request (str ''aspectRatio'')) (JStr (str ''16:9'')))
           (or_else (getProp request (str ''resolution'')) (JStr (str ''1080p''))) = Inr sz"
    and "\<not> nullish request" "getProp request (str ''prompt'') = JStr prompt"
  shows "\<exists>v. fst (callSoraV2API builtinProp now request (\<lambda>c. Responded r)) = Inr v
           \<and> v_status v = st"
  using assms by (simp add: callSoraV2API_def Let_def)

lemma convertible_or_else:
  "convertible a \<Longrightarrow> convertible b \<Longrightarrow> convertible (or_else a b)"
  by (simp add: or_else_def)

lemma sizeMap_values: "map_of sizeMap k = Some v \<Longrightarrow> truthy v"
  by (auto simp: sizeMap_def split: if_splits)

lemma aspectRatioSizeMap_rows:
  "map_of aspectRatioSizeMap ar = Some v \<Longrightarrow>
     \<exists>row. v = JObj row \<and> (\<forall>k w. map_of row k = Some w \<longrightarrow> truthy w)"
  by (auto simp: aspectRatioSizeMap_def split: if_splits)

text \<open>
  For an aspect ratio that has a string form and does not name a property of
  \<^verbatim>\<open>Object.prototype\<close>, the first read yields a row of the table or \<^verbatim>\<open>undefined\<close>,
  never a built-in.
\<close>

lemma aspectRatio_row:
  assumes "convertible aspectRatio"
    and "\<forall>k \<in> set objectPrototypeKeys. propertyKey aspectRatio \<noteq> Some k"
  shows "lookup aspectRatioSizeMap aspectRatio = Inr JUndefined
       \<or> (\<exists>row. lookup aspectRatioSizeMap aspectRatio = Inr (JObj row))"
proof (cases "propertyKey aspectRatio")
  case None
  with assms(1) show ?thesis by (simp add: lookup_no_key)
next
  case (Some k)
  with assms(2) have nk: "k \<notin> set objectPrototypeKeys" by auto
  show ?thesis
  proof (cases "map_of aspectRatioSizeMap k")
    case None
    with nk Some assms(1) show ?thesis by (simp add: lookup_key lookupKey_absent)
  next
    case (Some v)
    from aspectRatioSizeMap_rows[OF Some] obtain row where "v = JObj row" by blast
    with Some \<open>propertyKey aspectRatio = Some k\<close> assms(1) show ?thesis
      by (simp add: lookup_key lookupKey_own)
  qed
qed

lemma opt_index_returns:
  assumes "convertible key" and "row = JUndefined \<or> (\<exists>own. row = JObj own)"
  shows "\<exists>v. opt_index builtinProp row key = Inr v"
  using assms lookup_returns[of key]
  by (auto simp: opt_index_def)

text \<open>
  The size computation returns for an aspect ratio and a resolution that have a string
  form, when the aspect ratio does not name a property of \<^verbatim>\<open>Object.prototype\<close>.
\<close>

lemma sizeFor_returns:
  assumes "convertible aspectRatio" "convertible resolution"
    and "\<forall>k \<in> set objectPrototypeKeys. propertyKey aspectRatio \<noteq> Some k"
  shows "\<exists>v. sizeFor builtinProp aspectRatio resolution = Inr v"
proof -
  from aspectRatio_row[OF assms(1,3)] obtain row where
    row: "lookup aspectRatioSizeMap aspectRatio = Inr row"
    and shape: "row = JUndefined \<or> (\<exists>own. row = JObj own)" by auto
  from opt_index_returns[OF assms(2) shape] obtain first where
    first: "opt_index builtinProp row resolution = Inr first" by blast
  from lookup_returns[OF assms(2)] obtain second where
    second: "lookup sizeMap resolution = Inr second" by blast
  from row first second show ?thesis by (simp add: sizeFor_def)
qed

lemma or_else_default_key:
  assumes "\<forall>k \<in> set objectPrototypeKeys. propertyKey a \<noteq> Some k"
  shows "\<forall>k \<in> set objectPrototypeKeys. propertyKey (or_else a (JStr (str ''16:9''))) \<noteq> Some k"
  using assms by (auto simp: or_else_def objectPrototypeKeys_def)

text \<open>
  C1, as amended. For submit, fetchStatus and the fetchProgress of the OpenAI route the
  status returned is what \<open>mapSoraStatus\<close> makes of the upstream status: one of the four
  lifecycle tokens whenever the upstream status has a string form and does not name a
  property of \<^verbatim>\<open>Object.prototype\<close>, and \<^verbatim>\<open>pending\<close> when it names no row of the table
  either. Submit returns a record when the request has a string prompt and an aspect
  ratio and a resolution with a string form, the aspect ratio naming no property of
  \<^verbatim>\<open>Object.prototype\<close>. The fetchProgress of the SoraV2 route (progress/route.ts)
  returns the upstream status as it came.
\<close>

theorem returned_status:
  assumes "ok r" "json r = Some data" "\<not> nullish data"
    and "\<not> nullish request" "getProp request (str ''prompt'') = JStr prompt"
    and "convertible (getProp request (str ''aspectRatio''))"
    and "\<forall>k \<in> set objectPrototypeKeys.
           propertyKey (getProp request (str ''aspectRatio'')) \<noteq> Some k"
    and "convertible (getProp request (str ''resolution''))"
    and "convertible (getProp data (str ''status''))"
    and "\<forall>k \<in> set objectPrototypeKeys. propertyKey (getProp data (str ''status'')) \<noteq> Some k"
    and "convertible (getProp (videoData data) (str ''status''))"
    and "\<forall>k \<in> set objectPrototypeKeys.
           propertyKey (getProp (videoData data) (str ''status'')) \<noteq> Some k"
  shows "(\<exists>v. fst (callSoraV2API builtinProp now request (\<lambda>c. Responded r)) = Inr v
            \<and> mapSoraStatus (getProp (videoData data) (str ''status'')) = Inr (v_status v)
            \<and> v_status v \<in> set lifecycle
            \<and> ((\<forall>k \<in> set (map fst statusMap).
                    propertyKey (getProp (videoData data) (str ''status'')) \<noteq> Some k)
                 \<longrightarrow> v_status v = JStr (str ''pending'')))
       \<and> (\<exists>v. getVideoStatusFromSoraV2 now (Responded r) = Inr v
            \<and> mapSoraStatus (getProp data (str ''status'')) = Inr (v_status v)
            \<and> v_status v \<in> set lifecycle
            \<and> ((\<forall>k \<in> set (map fst statusMap). propertyKey (getProp data (str ''status'')) \<noteq> Some k)
                 \<longrightarrow> v_status v = JStr (str ''pending'')))
       \<and> (\<exists>p. getProgressFromSoraV2_openai (Responded r) = Inr p
            \<and> mapSoraStatus (getProp data (str ''status'')) = Inr (p_status p)
            \<and> p_status p \<in> set lifecycle
            \<and> ((\<forall>k \<in> set (map fst statusMap). propertyKey (getProp data (str ''status'')) \<noteq> Some k)
                 \<longrightarrow> p_status p = JStr (str ''pending'')))
       \<and> (\<exists>p. getProgressFromSoraV2_sora (Responded r) = Inr p
            \<and> p_status p = getProp data (str ''status''))"
proof -
  from mapSoraStatus_lifecycle[OF assms(9,10)] obtain st where
    st: "mapSoraStatus (getProp data (str ''status'')) = Inr st" and stl: "st \<in> set lifecycle"
    by blast
  from mapSoraStatus_lifecycle[OF assms(11,12)] obtain st' where
    st': "mapSoraStatus (getProp (videoData data) (str ''status'')) = Inr st'"
    and stl': "st' \<in> set lifecycle"
    by blast
  have pend: "(\<forall>k \<in> set (map fst statusMap). propertyKey (getProp data (str ''status'')) \<noteq> Some k)
      \<longrightarrow> st = JStr (str ''pending'')"
    using mapSoraStatus_no_row[OF assms(9,10)] st by auto
  have pend': "(\<forall>k \<in> set (map fst statusMap).
                  propertyKey (getProp (videoData data) (str ''status'')) \<noteq> Some k)
      \<longrightarrow> st' = JStr (str ''pending'')"
    using mapSoraStatus_no_row[OF assms(11,12)] st' by auto
  have "convertible (or_else (getProp request (str ''aspectRatio'')) (JStr (str ''16:9'')))"
    and "convertible (or_else (getProp request (str ''resolution'')) (JStr (str ''1080p'')))"
    using assms(6,8) by (simp_all add: convertible_or_else)
  from sizeFor_returns[OF this or_else_default_key[OF assms(7)], of builtinProp] obtain sz where
    sz: "sizeFor builtinProp
           (or_else (getProp request (str ''aspectRatio'')) (JStr (str ''16:9'')))
           (or_else (getProp request (str ''resolution'')) (JStr (str ''1080p''))) = Inr sz"
    by blast
  from callSoraV2API_status[OF assms(1-3) st' sz assms(4,5), of now] st' stl' pend'
  have a: "\<exists>v. fst (callSoraV2API builtinProp now request (\<lambda>c. Responded r)) = Inr v
            \<and> mapSoraStatus (getProp (videoData data) (str ''status'')) = Inr (v_status v)
            \<and> v_status v \<in> set lifecycle
            \<and> ((\<forall>k \<in> set (map fst statusMap).
                    propertyKey (getProp (videoData data) (str ''status'')) \<noteq> Some k)
                 \<longrightarrow> v_status v = JStr (str ''pending''))"
    by auto
  from getVideoStatus_status[OF assms(1-3) st, of now] st stl pend
  have b: "\<exists>v. getVideoStatusFromSoraV2 now (Responded r) = Inr v
            \<and> mapSoraStatus (getProp data (str ''status'')) = Inr (v_status v)
            \<and> v_status v \<in> set lifecycle
            \<and> ((\<forall>k \<in> set (map fst statusMap). propertyKey (getProp data (str ''status'')) \<noteq> Some k)
                 \<longrightarrow> v_status v = JStr (str ''pending''))"
    by auto
  from progressOf_returns[OF assms(9)] obtain pr where pr: "progressOf data = Inr pr" by blast
  from getProgress_openai_returns[OF assms(1-3) pr st] st stl pend
  have c: "\<exists>p. getProgressFromSoraV2_openai (Responded r) = Inr p
            \<and> mapSoraStatus (getProp data (str ''status'')) = Inr (p_status p)
            \<and> p_status p \<in> set lifecycle
            \<and> ((\<forall>k \<in> set (map fst statusMap). propertyKey (getProp data (str ''status'')) \<noteq> Some k)
                 \<longrightarrow> p_status p = JStr (str ''pending''))"
    by simp
  have d: "\<exists>p. getProgressFromSoraV2_sora (Responded r) = Inr p
            \<and> p_status p = getProp data (str ''status'')"
    by (simp add: getProgress_sora_returns[OF assms(1-3)])
  from a b c d show ?thesis by blast
qed

theorem returned_status_witness:
  "(\<exists>v. fst (callSoraV2API (\<lambda>b k. Inr JUndefined) (str ''2025-01-01T00:00:00.000Z'')
               (JObj [(str ''prompt'', JStr (str ''a cat''))])
               (\<lambda>c. Responded \<lparr>http_status = 200, statusText = str ''OK'',
                        json = Some (JObj [(str ''id'', JStr (str ''v1'')),
                                           (str ''status'', JStr (str ''in_progress''))])\<rparr>)) = Inr v
        \<and> v_status v = JStr (str ''processing''))
   \<and> (\<exists>v. getVideoStatusFromSoraV2 (str ''2025-01-01T00:00:00.000Z'')
               (Responded \<lparr>http_status = 200, statusText = str ''OK'',
                        json = Some (JObj [(str ''id'', JStr (str ''v1'')),
                                           (str ''status'', JStr (str ''in_progress''))])\<rparr>) = Inr v
        \<and> v_status v = JStr (str ''processing''))
   \<and> (\<exists>p. getProgressFromSoraV2_openai
               (Responded \<lparr>http_status = 200, statusText = str ''OK'',
                        json = Some (JObj [(str ''id'', JStr (str ''v1'')),
                                           (str ''status'', JStr (str ''in_progress''))])\<rparr>) = Inr p
        \<and> p_status p = JStr (str ''processing''))
   \<and> (\<exists>p. getProgressFromSoraV2_sora
               (Responded \<lparr>http_status = 200, statusText = str ''OK'',
                        json = Some (JObj [(str ''id'', JStr (str ''v1'')),
                                           (str ''status'', JStr (str ''in_progress''))])\<rparr>) = Inr p
        \<and> p_status p = JStr (str ''in_progress''))"
proof -
  let ?data = "JObj [(str ''id'', JStr (str ''v1'')), (str ''status'', JStr (str ''in_progress''))]"
  let ?r = "\<lparr>http_status = 200, statusText = str ''OK'', json = Some ?data\<rparr>"
  let ?request = "JObj [(str ''prompt'', JStr (str ''a cat''))]"
  have vd: "videoData ?data = ?data"
    by (simp add: videoData_def or_else_def)
  have h1: "ok ?r" by (simp add: ok_def)
  have h2: "json ?r = Some ?data" by simp
  have h3: "\<not> nullish ?data" by simp
  have h4: "\<not> nullish ?request" by simp
  have h5: "getProp ?request (str ''prompt'') = JStr (str ''a cat'')" by simp
  have h6: "convertible (getProp ?request (str ''aspectRatio''))" by simp
  have h6': "\<forall>k \<in> set objectPrototypeKeys.
               propertyKey (getProp ?request (str ''aspectRatio'')) \<noteq> Some k"
    by simp
  have h7: "convertible (getProp ?request (str ''resolution''))" by simp
  have h8: "convertible (getProp ?data (str ''status''))" by simp
  have h9: "\<forall>k \<in> set objectPrototypeKeys. propertyKey (getProp ?data (str ''status'')) \<noteq> Some k"
    by (simp add: objectPrototypeKeys_def)
  have h10: "convertible (getProp (videoData ?data) (str ''status''))"
    unfolding vd by (rule h8)
  have h11: "\<forall>k \<in> set objectPrototypeKeys.
              propertyKey (getProp (videoData ?data) (str ''status'')) \<noteq> Some k"
    unfolding vd by (rule h9)
  have st: "getProp ?data (str ''status'') = JStr (str ''in_progress'')" by simp
  from returned_status[OF h1 h2 h3 h4 h5 h6 h6' h7 h8 h9 h10 h11,
      where builtinProp = "\<lambda>b k. Inr JUndefined" and now = "str ''2025-01-01T00:00:00.000Z''"]
  show ?thesis
    unfolding vd st mapSoraStatus_table by auto
qed

text \<open>
  C1 as stated fails on the SoraV2 route: the upstream status \<^verbatim>\<open>queued\<close> is returned
  as \<^verbatim>\<open>queued\<close>, which is none of the four tokens.
\<close>

theorem sora_progress_status_passthrough:
  "getProgressFromSoraV2_sora
     (Responded \<lparr>http_status = 200, statusText = str ''OK'',
                 json = Some (JObj [(str ''id'', JStr (str ''v1'')),
                                    (str ''status'', JStr (str ''queued''))])\<rparr>)
   = Inr \<lparr>p_id = JStr (str ''v1''), p_progress = JNum 0, p_status = JStr (str ''queued''),
          p_currentStep = JUndefined, p_estimatedTimeRemaining = JUndefined\<rparr>
   \<and> JStr (str ''queued'') \<notin> set lifecycle"
  by (simp add: getProgressFromSoraV2_sora_def ok_def or_else_def lifecycle_def)

section \<open>The progress handlers\<close>

lemma not_found_sora:
  "http_status r = 404 \<Longrightarrow> getProgressFromSoraV2_sora (Responded r) = Inl VideoNotFound"
  by (simp add: getProgressFromSoraV2_sora_def ok_def)

lemma not_found_openai:
  "http_status r = 404 \<Longrightarrow> getProgressFromSoraV2_openai (Responded r) = Inl VideoNotFound"
  by (simp add: getProgressFromSoraV2_openai_def ok_def)

text \<open>The handlers answer with no other status than 200, 400 and 500.\<close>

lemma GET_progress_sora_code:
  "code (GET_progress_sora apiKey videoId upstream) = 200
   \<or> code (GET_progress_sora apiKey videoId upstream) = 400
   \<or> code (GET_progress_sora apiKey videoId upstream) = 500"
  by (simp add: GET_progress_sora_def split: option.split sum.split)

lemma GET_progress_openai_code:
  "code (GET_progress_openai apiKey videoId upstream) = 200
   \<or> code (GET_progress_openai apiKey videoId upstream) = 400
   \<or> code (GET_progress_openai apiKey videoId upstream) = 500"
  by (simp add: GET_progress_openai_def split: option.split sum.split)

text \<open>
  C3, as amended. Both progress handlers answer 400 when the id is omitted or empty,
  500 when the API key is not configured, 200 with the GenerationProgress when the
  upstream call succeeds, and 500 in every other case: an upstream 404 becomes the error
  \<open>VideoNotFound\<close>, which the handler's \<^verbatim>\<open>catch\<close> answers with 500 like any other.
\<close>

theorem progress_handler_replies:
  "GET_progress_sora apiKey None upstream = JsonReply 400 (Failed (Literal ''Video ID is required''))
   \<and> GET_progress_sora apiKey (Some []) upstream
       = JsonReply 400 (Failed (Literal ''Video ID is required''))
   \<and> GET_progress_openai apiKey None upstream
       = JsonReply 400 (Failed (Literal ''Video ID is required''))
   \<and> GET_progress_openai apiKey (Some []) upstream
       = JsonReply 400 (Failed (Literal ''Video ID is required''))
   \<and> (vid \<noteq> [] \<and> unset apiKey \<longrightarrow>
        code (GET_progress_sora apiKey (Some vid) upstream) = 500
        \<and> code (GET_progress_openai apiKey (Some vid) upstream) = 500)
   \<and> (vid \<noteq> [] \<and> \<not> unset apiKey \<and> upstream vid = Responded r \<and> http_status r = 404 \<longrightarrow>
        GET_progress_sora apiKey (Some vid) upstream
          = JsonReply 500 (Failed (Literal ''Internal server error''))
        \<and> GET_progress_openai apiKey (Some vid) upstream
          = JsonReply 500 (Failed (MessageOf VideoNotFound)))
   \<and> (vid \<noteq> [] \<and> \<not> unset apiKey \<longrightarrow>
        (\<forall>p. getProgressFromSoraV2_sora (upstream vid) = Inr p \<longrightarrow>
           GET_progress_sora apiKey (Some vid) upstream
             = JsonReply 200 (Succeeded (ProgressData p)))
        \<and> (\<forall>p. getProgressFromSoraV2_openai (upstream vid) = Inr p \<longrightarrow>
           GET_progress_openai apiKey (Some vid) upstream
             = JsonReply 200 (Succeeded (ProgressData p)))
        \<and> (\<forall>e. getProgressFromSoraV2_sora (upstream vid) = Inl e \<longrightarrow>
           code (GET_progress_sora apiKey (Some vid) upstream) = 500)
        \<and> (\<forall>e. getProgressFromSoraV2_openai (upstream vid) = Inl e \<longrightarrow>
           code (GET_progress_openai apiKey (Some vid) upstream) = 500))
   \<and> (upstream vid = Responded r \<and> ok r \<and> json r = Some data \<and> \<not> nullish data \<longrightarrow>
        (\<exists>p. getProgressFromSoraV2_sora (upstream vid) = Inr p)
        \<and> (convertible (getProp data (str ''status'')) \<longrightarrow>
             (\<exists>p. getProgressFromSoraV2_openai (upstream vid) = Inr p)))"
proof -
  have a: "GET_progress_sora apiKey None upstream
             = JsonReply 400 (Failed (Literal ''Video ID is required''))"
    "GET_progress_sora apiKey (Some []) upstream
             = JsonReply 400 (Failed (Literal ''Video ID is required''))"
    "GET_progress_openai apiKey None upstream
             = JsonReply 400 (Failed (Literal ''Video ID is required''))"
    "GET_progress_openai apiKey (Some []) upstream
             = JsonReply 400 (Failed (Literal ''Video ID is required''))"
    by (simp_all add: GET_progress_sora_def GET_progress_openai_def)
  have b: "vid \<noteq> [] \<and> unset apiKey \<longrightarrow>
        code (GET_progress_sora apiKey (Some vid) upstream) = 500
        \<and> code (GET_progress_openai apiKey (Some vid) upstream) = 500"
    by (simp add: GET_progress_sora_def GET_progress_openai_def)
  have c: "vid \<noteq> [] \<and> \<not> unset apiKey \<and> upstream vid = Responded r \<and> http_status r = 404 \<longrightarrow>
        GET_progress_sora apiKey (Some vid) upstream
          = JsonReply 500 (Failed (Literal ''Internal server error''))
        \<and> GET_progress_openai apiKey (Some vid) upstream
          = JsonReply 500 (Failed (MessageOf VideoNotFound))"
    by (simp add: GET_progress_sora_def GET_progress_openai_def not_found_sora not_found_openai)
  have d: "vid \<noteq> [] \<and> \<not> unset apiKey \<longrightarrow>
        (\<forall>p. getProgressFromSoraV2_sora (upstream vid) = Inr p \<longrightarrow>
           GET_progress_sora apiKey (Some vid) upstream
             = JsonReply 200 (Succeeded (ProgressData p)))
        \<and> (\<forall>p. getProgressFromSoraV2_openai (upstream vid) = Inr p \<longrightarrow>
           GET_progress_openai apiKey (Some vid) upstream
             = JsonReply 200 (Succeeded (ProgressData p)))
        \<and> (\<forall>e. getProgressFromSoraV2_sora (upstream vid) = Inl e \<longrightarrow>
           code (GET_progress_sora apiKey (Some vid) upstream) = 500)
        \<and> (\<forall>e. getProgressFromSoraV2_openai (upstream vid) = Inl e \<longrightarrow>
           code (GET_progress_openai apiKey (Some vid) upstream) = 500)"
    by (simp add: GET_progress_sora_def GET_progress_openai_def)
  have e: "upstream vid = Responded r \<and> ok r \<and> json r = Some data \<and> \<not> nullish data \<longrightarrow>
        (\<exists>p. getProgressFromSoraV2_sora (upstream vid) = Inr p)
        \<and> (convertible (getProp data (str ''status'')) \<longrightarrow>
             (\<exists>p. getProgressFromSoraV2_openai (upstream vid) = Inr p))"
  proof (intro impI conjI)
    assume h: "upstream vid = Responded r \<and> ok r \<and> json r = Some data \<and> \<not> nullish data"
    then show "\<exists>p. getProgressFromSoraV2_sora (upstream vid) = Inr p"
      by (simp add: getProgress_sora_returns)
    assume cv: "convertible (getProp data (str ''status''))"
    from progressOf_returns[OF cv] obtain pr where pr: "progressOf data = Inr pr" by blast
    from mapSoraStatus_returns[OF cv] obtain st where
      st: "mapSoraStatus (getProp data (str ''status'')) = Inr st" by blast
    from h pr st show "\<exists>p. getProgressFromSoraV2_openai (upstream vid) = Inr p"
      by (simp add: getProgress_openai_returns)
  qed
  from a b c d e show ?thesis by blast
qed

theorem progress_handler_replies_witness:
  "code (GET_progress_sora (Some (str ''key'')) (Some (str ''v1''))
     (\<lambda>vid. Responded \<lparr>http_status = 404, statusText = str ''Not Found'', json = None\<rparr>)) = 500
   \<and> code (GET_progress_openai (Some (str ''key'')) (Some (str ''v1''))
     (\<lambda>vid. Responded \<lparr>http_status = 404, statusText = str ''Not Found'', json = None\<rparr>)) = 500
   \<and> code (GET_progress_sora None (Some (str ''v1''))
     (\<lambda>vid. Responded \<lparr>http_status = 404, statusText = str ''Not Found'', json = None\<rparr>)) = 500
   \<and> code (GET_progress_sora (Some (str ''key'')) (Some (str ''v1''))
     (\<lambda>vid. Responded \<lparr>http_status = 200, statusText = str ''OK'',
          json = Some (JObj [(str ''id'', JStr (str ''v1'')),
                             (str ''status'', JStr (str ''queued''))])\<rparr>)) = 200
   \<and> code (GET_progress_openai (Some (str ''key'')) (Some (str ''v1''))
     (\<lambda>vid. Responded \<lparr>http_status = 200, statusText = str ''OK'',
          json = Some (JObj [(str ''id'', JStr (str ''v1'')),
                             (str ''status'', JStr (str ''queued''))])\<rparr>)) = 200
   \<and> code (GET_progress_sora (Some (str ''key'')) (Some (str ''v1''))
     (\<lambda>vid. Responded \<lparr>http_status = 200, statusText = str ''OK'', json = None\<rparr>)) = 500"
proof -
  let ?nf = "\<lparr>http_status = 404, statusText = str ''Not Found'', json = None\<rparr>"
  let ?data = "JObj [(str ''id'', JStr (str ''v1'')), (str ''status'', JStr (str ''queued''))]"
  let ?good = "\<lparr>http_status = 200, statusText = str ''OK'', json = Some ?data\<rparr>"
  let ?bad = "\<lparr>http_status = 200, statusText = str ''OK'', json = None :: jsval option\<rparr>"
  have bad: "getProgressFromSoraV2_sora (Responded ?bad) = Inl InvalidJson"
    by (simp add: getProgressFromSoraV2_sora_def ok_def)
  from progress_handler_replies[of "Some (str ''key'')" "\<lambda>vid. Responded ?nf" "str ''v1''" ?nf]
  have 1: "code (GET_progress_sora (Some (str ''key'')) (Some (str ''v1''))
                   (\<lambda>vid. Responded ?nf)) = 500"
    and 2: "code (GET_progress_openai (Some (str ''key'')) (Some (str ''v1''))
                   (\<lambda>vid. Responded ?nf)) = 500"
    by simp_all
  from progress_handler_replies[of None "\<lambda>vid. Responded ?nf" "str ''v1''"]
  have 3: "code (GET_progress_sora None (Some (str ''v1'')) (\<lambda>vid. Responded ?nf)) = 500"
    by simp
  from progress_handler_replies
    [of "Some (str ''key'')" "\<lambda>vid. Responded ?good" "str ''v1''" ?good ?data]
  have 4: "code (GET_progress_sora (Some (str ''key'')) (Some (str ''v1''))
                   (\<lambda>vid. Responded ?good)) = 200"
    and 5: "code (GET_progress_openai (Some (str ''key'')) (Some (str ''v1''))
                   (\<lambda>vid. Responded ?good)) = 200"
    by (auto simp: ok_def)
  from progress_handler_replies[of "Some (str ''key'')" "\<lambda>vid. Responded ?bad" "str ''v1''"] bad
  have 6: "code (GET_progress_sora (Some (str ''key'')) (Some (str ''v1''))
                   (\<lambda>vid. Responded ?bad)) = 500"
    by simp
  from 1 2 3 4 5 6 show ?thesis by simp
qed

text \<open>
  C3 as stated fails: for an id the upstream does not know (it answers 404) both
  handlers answer 500, not 404.
\<close>

theorem progress_handler_upstream_404:
  "GET_progress_sora (Some (str ''key'')) (Some (str ''v1''))
     (\<lambda>vid. Responded \<lparr>http_status = 404, statusText = str ''Not Found'', json = None\<rparr>)
   = JsonReply 500 (Failed (Literal ''Internal server error''))
   \<and> GET_progress_openai (Some (str ''key'')) (Some (str ''v1''))
     (\<lambda>vid. Responded \<lparr>http_status = 404, statusText = str ''Not Found'', json = None\<rparr>)
   = JsonReply 500 (Failed (MessageOf VideoNotFound))
   \<and> code (GET_progress_sora (Some (str ''key'')) (Some (str ''v1''))
     (\<lambda>vid. Responded \<lparr>http_status = 404, statusText = str ''Not Found'', json = None\<rparr>)) \<noteq> 404"
  by (simp add: GET_progress_sora_def GET_progress_openai_def getProgressFromSoraV2_sora_def
      getProgressFromSoraV2_openai_def ok_def)

section \<open>The download URL\<close>

lemma download_ready:
  assumes "ok r" "json r = Some data" "\<not> nullish data"
    and "terminalSuccess (getProp data (str ''status''))"
  shows "getVideoDownloadUrlFromSoraV2 (Responded r) =
     (if truthy (or_else (or_else (getProp data (str ''url'')) (getProp data (str ''video_url'')))
                         (getProp data (str ''download_url'')))
      then Inr (or_else (or_else (getProp data (str ''url'')) (getProp data (str ''video_url'')))
                        (getProp data (str ''download_url'')))
      else Inl UrlNotAvailable)"
  using assms by (simp add: getVideoDownloadUrlFromSoraV2_def Let_def)

lemma download_not_ready:
  assumes "ok r" "json r = Some data" "\<not> nullish data"
    and "\<not> terminalSuccess (getProp data (str ''status''))"
  shows "getVideoDownloadUrlFromSoraV2 (Responded r) =
     Inl (interpolating (getProp data (str ''status'')) (NotReady (getProp data (str ''status''))))"
  using assms by (simp add: getVideoDownloadUrlFromSoraV2_def)

text \<open>
  A string status is ready for download exactly when the Status Normalizer maps it to
  \<^verbatim>\<open>completed\<close>.
\<close>

lemma terminalSuccess_iff_completed:
  "terminalSuccess (JStr s) \<longleftrightarrow> mapSoraStatus (JStr s) = Inr (JStr (str ''completed''))"
  by (auto simp: terminalSuccess_def mapSoraStatus_str lookupKey_def statusMap_def or_else_def
      split: if_splits)

text \<open>
  C6. For a fetched record, \<^verbatim>\<open>getVideoDownloadUrlFromSoraV2\<close> fails whenever the status
  is not \<^verbatim>\<open>succeeded\<close> or \<^verbatim>\<open>completed\<close>, with the not-ready error that carries the
  current status (for a status that has a string form to put into the message); it
  returns a URL only when the status is one of the two and the URL is the value of
  \<^verbatim>\<open>url\<close>, \<^verbatim>\<open>video_url\<close> or \<^verbatim>\<open>download_url\<close>, a field that is present; and it fails
  with the missing-resource error when the status is one of the two and none of the
  three fields is present. It does return when the status is one of the two and one of
  the fields holds a truthy value.
\<close>

theorem resolveDownloadUrl_outcomes:
  assumes "ok r" "json r = Some data" "\<not> nullish data"
  shows "(\<not> terminalSuccess (getProp data (str ''status'')) \<longrightarrow>
            (\<exists>e. getVideoDownloadUrlFromSoraV2 (Responded r) = Inl e)
            \<and> (convertible (getProp data (str ''status'')) \<longrightarrow>
                 getVideoDownloadUrlFromSoraV2 (Responded r)
                   = Inl (NotReady (getProp data (str ''status'')))))
       \<and> (\<forall>u. getVideoDownloadUrlFromSoraV2 (Responded r) = Inr u \<longrightarrow>
            terminalSuccess (getProp data (str ''status'')) \<and> u \<noteq> JUndefined \<and> truthy u
            \<and> (u = getProp data (str ''url'') \<or> u = getProp data (str ''video_url'')
                \<or> u = getProp data (str ''download_url'')))
       \<and> (terminalSuccess (getProp data (str ''status''))
            \<and> getProp data (str ''url'') = JUndefined
            \<and> getProp data (str ''video_url'') = JUndefined
            \<and> getProp data (str ''download_url'') = JUndefined \<longrightarrow>
            getVideoDownloadUrlFromSoraV2 (Responded r) = Inl UrlNotAvailable)
       \<and> (terminalSuccess (getProp data (str ''status''))
            \<and> (truthy (getProp data (str ''url'')) \<or> truthy (getProp data (str ''video_url''))
                \<or> truthy (getProp data (str ''download_url''))) \<longrightarrow>
            (\<exists>u. getVideoDownloadUrlFromSoraV2 (Responded r) = Inr u))"
proof -
  have a: "\<not> terminalSuccess (getProp data (str ''status'')) \<longrightarrow>
            (\<exists>e. getVideoDownloadUrlFromSoraV2 (Responded r) = Inl e)
            \<and> (convertible (getProp data (str ''status'')) \<longrightarrow>
                 getVideoDownloadUrlFromSoraV2 (Responded r)
                   = Inl (NotReady (getProp data (str ''status''))))"
    using download_not_ready[OF assms] by (simp add: interpolating_def)
  have b: "\<forall>u. getVideoDownloadUrlFromSoraV2 (Responded r) = Inr u \<longrightarrow>
            terminalSuccess (getProp data (str ''status'')) \<and> u \<noteq> JUndefined \<and> truthy u
            \<and> (u = getProp data (str ''url'') \<or> u = getProp data (str ''video_url'')
                \<or> u = getProp data (str ''download_url''))"
  proof (intro allI impI)
    fix u assume u: "getVideoDownloadUrlFromSoraV2 (Responded r) = Inr u"
    have ts: "terminalSuccess (getProp data (str ''status''))"
      using a u by auto
    from u download_ready[OF assms ts]
    have "truthy u"
      and "u = or_else (or_else (getProp data (str ''url'')) (getProp data (str ''video_url'')))
                       (getProp data (str ''download_url''))"
      by (auto split: if_splits)
    then show "terminalSuccess (getProp data (str ''status'')) \<and> u \<noteq> JUndefined \<and> truthy u
            \<and> (u = getProp data (str ''url'') \<or> u = getProp data (str ''video_url'')
                \<or> u = getProp data (str ''download_url''))"
      using ts by (auto simp: or_else_def split: if_splits)
  qed
  have c: "terminalSuccess (getProp data (str ''status''))
            \<and> getProp data (str ''url'') = JUndefined
            \<and> getProp data (str ''video_url'') = JUndefined
            \<and> getProp data (str ''download_url'') = JUndefined \<longrightarrow>
            getVideoDownloadUrlFromSoraV2 (Responded r) = Inl UrlNotAvailable"
    using assms by (simp add: download_ready or_else_def)
  have d: "terminalSuccess (getProp data (str ''status''))
            \<and> (truthy (getProp data (str ''url'')) \<or> truthy (getProp data (str ''video_url''))
                \<or> truthy (getProp data (str ''download_url''))) \<longrightarrow>
            (\<exists>u. getVideoDownloadUrlFromSoraV2 (Responded r) = Inr u)"
    using assms by (auto simp: download_ready or_else_def)
  from a b c d show ?thesis by blast
qed

theorem resolveDownloadUrl_outcomes_witness:
  "getVideoDownloadUrlFromSoraV2
     (Responded \<lparr>http_status = 200, statusText = str ''OK'',
        json = Some (JObj [(str ''status'', JStr (str ''in_progress''))])\<rparr>)
     = Inl (NotReady (JStr (str ''in_progress'')))
   \<and> getVideoDownloadUrlFromSoraV2
     (Responded \<lparr>http_status = 200, statusText = str ''OK'',
        json = Some (JObj [(str ''status'', JStr (str ''succeeded''))])\<rparr>)
     = Inl UrlNotAvailable
   \<and> getVideoDownloadUrlFromSoraV2
     (Responded \<lparr>http_status = 200, statusText = str ''OK'',
        json = Some (JObj [(str ''status'', JStr (str ''completed'')),
                           (str ''video_url'', JStr (str ''https://cdn.example/v1.mp4''))])\<rparr>)
     = Inr (JStr (str ''https://cdn.example/v1.mp4''))"
proof -
  let ?d1 = "JObj [(str ''status'', JStr (str ''in_progress''))]"
  let ?d2 = "JObj [(str ''status'', JStr (str ''succeeded''))]"
  let ?d3 = "JObj [(str ''status'', JStr (str ''completed'')),
                   (str ''video_url'', JStr (str ''https://cdn.example/v1.mp4''))]"
  have 1: "getVideoDownloadUrlFromSoraV2
     (Responded \<lparr>http_status = 200, statusText = str ''OK'', json = Some ?d1\<rparr>)
     = Inl (NotReady (JStr (str ''in_progress'')))"
    using resolveDownloadUrl_outcomes
      [of "\<lparr>http_status = 200, statusText = str ''OK'', json = Some ?d1\<rparr>" ?d1]
    by (simp add: ok_def terminalSuccess_def)
  have 2: "getVideoDownloadUrlFromSoraV2
     (Responded \<lparr>http_status = 200, statusText = str ''OK'', json = Some ?d2\<rparr>)
     = Inl UrlNotAvailable"
    using resolveDownloadUrl_outcomes
      [of "\<lparr>http_status = 200, statusText = str ''OK'', json = Some ?d2\<rparr>" ?d2]
    by (simp add: ok_def terminalSuccess_def)
  have 3: "getVideoDownloadUrlFromSoraV2
     (Responded \<lparr>http_status = 200, statusText = str ''OK'', json = Some ?d3\<rparr>)
     = Inr (JStr (str ''https://cdn.example/v1.mp4''))"
    using resolveDownloadUrl_outcomes
      [of "\<lparr>http_status = 200, statusText = str ''OK'', json = Some ?d3\<rparr>" ?d3]
    by (auto simp: ok_def terminalSuccess_def)
  from 1 2 3 show ?thesis by simp
qed

section \<open>The size of a submitted video\<close>

lemma sizeFor_examples:
  "sizeFor builtinProp (JStr (str ''9:16'')) (JStr (str ''720p'')) = Inr (JStr (str ''720x1280''))"
  "sizeFor builtinProp (JStr (str ''unknown'')) (JStr (str ''1080p''))
     = Inr (JStr (str ''1920x1080''))"
  "sizeFor builtinProp (JStr (str ''16:9'')) (JStr (str ''unknown''))
     = Inr (JStr (str ''1920x1080''))"
  by (simp_all add: sizeFor_def opt_index_def lookup_str lookupKey_def aspectRatioSizeMap_def
      sizeMap_def objectPrototypeKeys_def or_else_def)

text \<open>
  The two-level fallback, for an aspect ratio and a resolution that name no property of
  \<^verbatim>\<open>Object.prototype\<close>: the row of the aspect ratio, then the resolution-only table,
  then the default.
\<close>

lemma sizeFor_two_level:
  assumes "ar \<notin> set objectPrototypeKeys" "res \<notin> set objectPrototypeKeys"
  shows "sizeFor builtinProp (JStr ar) (JStr res) =
     Inr (case map_of aspectRatioSizeMap ar of
            Some (JObj row) \<Rightarrow>
              (case map_of row res of
                 Some s \<Rightarrow> s
               | None \<Rightarrow>
                   (case map_of sizeMap res of
                      Some s \<Rightarrow> s
                    | None \<Rightarrow> JStr (str ''1920x1080'')))
          | _ \<Rightarrow> (case map_of sizeMap res of Some s \<Rightarrow> s | None \<Rightarrow> JStr (str ''1920x1080'')))"
proof -
  have fallback: "or_else (lookupKey sizeMap res) (JStr (str ''1920x1080''))
      = (case map_of sizeMap res of Some s \<Rightarrow> s | None \<Rightarrow> JStr (str ''1920x1080''))"
    using assms(2) sizeMap_values[of res]
    by (auto simp: lookupKey_def or_else_def split: option.split)
  show ?thesis
  proof (cases "map_of aspectRatioSizeMap ar")
    case None
    with assms(1) have "lookupKey aspectRatioSizeMap ar = JUndefined"
      by (simp add: lookupKey_absent)
    with None fallback show ?thesis
      by (simp add: sizeFor_def opt_index_def lookup_str)
  next
    case (Some v)
    from aspectRatioSizeMap_rows[OF Some] obtain row where
      v: "v = JObj row" and tr: "\<And>k w. map_of row k = Some w \<Longrightarrow> truthy w" by blast
    from Some v have l: "lookupKey aspectRatioSizeMap ar = JObj row"
      by (simp add: lookupKey_own)
    show ?thesis
    proof (cases "map_of row res")
      case None
      with assms(2) have "lookupKey row res = JUndefined"
        by (simp add: lookupKey_absent)
      with None Some v l fallback show ?thesis
        by (simp add: sizeFor_def opt_index_def lookup_str)
    next
      case (Some s)
      then have "lookupKey row res = s" "truthy s"
        using tr by (simp_all add: lookupKey_own)
      with Some \<open>map_of aspectRatioSizeMap ar = Some v\<close> v l show ?thesis
        by (simp add: sizeFor_def opt_index_def lookup_str)
    qed
  qed
qed

text \<open>
  When the read on the inherited built-in throws, submit throws before any call:
  \<^verbatim>\<open>aspectRatioSizeMap['constructor']?.['caller']\<close>.
\<close>

lemma callSoraV2API_builtin_read_throws:
  assumes "builtinProp (str ''constructor'') (JStr (str ''caller'')) = Inl TypeError"
  shows "callSoraV2API builtinProp now
           (JObj [(str ''prompt'', JStr (str ''a cat'')),
                  (str ''aspectRatio'', JStr (str ''constructor'')),
                  (str ''resolution'', JStr (str ''caller''))]) upstream
         = (Inl TypeError, [])"
  using assms
  by (simp add: callSoraV2API_def Let_def or_else_def sizeFor_def opt_index_def lookup_str
      lookupKey_def aspectRatioSizeMap_def objectPrototypeKeys_def)

text \<open>
  C7. The claim: for every pair the size is found in the aspect-ratio table, else in the
  resolution-only table, else it is \<^verbatim>\<open>1920x1080\<close>. The three pairs the claim names
  hold (\<open>sizeFor_examples\<close>), and so does the fallback for every pair of strings that
  name no property of \<^verbatim>\<open>Object.prototype\<close> (\<open>sizeFor_two_level\<close>). On
  \<^verbatim>\<open>("16:9", "constructor")\<close> the code does not do what the claim says: the row of
  \<^verbatim>\<open>16:9\<close> is an object literal, its \<^verbatim>\<open>constructor\<close> is the inherited function
  \<^verbatim>\<open>Object\<close>, which is truthy, so neither fallback is taken and the size of the
  creation call is that function, not \<^verbatim>\<open>1920x1080\<close>.
\<close>

theorem size_of_constructor_resolution:
  "sizeFor builtinProp (JStr (str ''16:9'')) (JStr (str ''constructor''))
     = Inr (JBuiltin (str ''constructor''))
   \<and> sizeFor builtinProp (JStr (str ''16:9'')) (JStr (str ''constructor''))
     \<noteq> Inr (JStr (str ''1920x1080''))
   \<and> snd (callSoraV2API builtinProp now
             (JObj [(str ''prompt'', JStr (str ''a cat'')),
                    (str ''resolution'', JStr (str ''constructor''))]) upstream)
       = [\<lparr>c_prompt = str ''a cat'', c_size = JBuiltin (str ''constructor''),
           c_duration = JNum 10\<rparr>]"
proof -
  have t: "trim (str ''a cat'') = str ''a cat''"
    by (simp add: trim_def str_def isWhiteSpace_def)
  have s: "sizeFor builtinProp (JStr (str ''16:9'')) (JStr (str ''constructor''))
             = Inr (JBuiltin (str ''constructor''))"
    by (simp add: sizeFor_def opt_index_def lookup_str lookupKey_def aspectRatioSizeMap_def
        sizeMap_def objectPrototypeKeys_def)
  have c: "snd (callSoraV2API builtinProp now
             (JObj [(str ''prompt'', JStr (str ''a cat'')),
                    (str ''resolution'', JStr (str ''constructor''))]) upstream)
       = [\<lparr>c_prompt = str ''a cat'', c_size = JBuiltin (str ''constructor''),
           c_duration = JNum 10\<rparr>]"
    by (simp add: callSoraV2API_def Let_def t s or_else_def)
  from s c show ?thesis by simp
qed

section \<open>The submit handler\<close>

lemma trim_blank:
  assumes "\<forall>c \<in> set s. isWhiteSpace c"
  shows "trim s = []"
  using assms by (auto simp: trim_def dest: set_dropWhileD)

text \<open>
  C9, as amended. A submit request whose body is a JSON value other than \<^verbatim>\<open>null\<close> and
  whose prompt is absent, empty or made of whitespace only is answered with the
  validation failure, status 400, and no call to the upstream service is made, whatever
  the API key. A request whose body is \<^verbatim>\<open>null\<close> or is not JSON is answered with status
  500 and the message of the error thrown, also without a call to the upstream service.
\<close>

theorem blank_prompt_rejected:
  "(\<not> nullish b
      \<and> (getProp b (str ''prompt'') = JUndefined
          \<or> (\<exists>s. getProp b (str ''prompt'') = JStr s \<and> (\<forall>c \<in> set s. isWhiteSpace c)))
      \<longrightarrow> POST builtinProp now apiKey (Some b) upstream =
           (JsonReply 400
              (Failed (Literal ''Prompt is required and must be a non-empty string'')), []))
   \<and> (nullish b
      \<longrightarrow> POST builtinProp now apiKey (Some b) upstream =
           (JsonReply 500 (Failed (MessageOf TypeError)), []))
   \<and> POST builtinProp now apiKey None upstream =
        (JsonReply 500 (Failed (MessageOf InvalidJson)), [])"
proof -
  have a: "\<not> nullish b
      \<and> (getProp b (str ''prompt'') = JUndefined
          \<or> (\<exists>s. getProp b (str ''prompt'') = JStr s \<and> (\<forall>c \<in> set s. isWhiteSpace c)))
      \<longrightarrow> POST builtinProp now apiKey (Some b) upstream =
           (JsonReply 400
              (Failed (Literal ''Prompt is required and must be a non-empty string'')), [])"
  proof
    assume h: "\<not> nullish b
      \<and> (getProp b (str ''prompt'') = JUndefined
          \<or> (\<exists>s. getProp b (str ''prompt'') = JStr s \<and> (\<forall>c \<in> set s. isWhiteSpace c)))"
    then have "invalidPrompt (getProp b (str ''prompt''))"
      by (auto simp: invalidPrompt_def trim_blank)
    with h show "POST builtinProp now apiKey (Some b) upstream =
           (JsonReply 400
              (Failed (Literal ''Prompt is required and must be a non-empty string'')), [])"
      by (simp add: POST_def)
  qed
  have b: "nullish b
      \<longrightarrow> POST builtinProp now apiKey (Some b) upstream =
           (JsonReply 500 (Failed (MessageOf TypeError)), [])"
    by (simp add: POST_def)
  have c: "POST builtinProp now apiKey None upstream =
        (JsonReply 500 (Failed (MessageOf InvalidJson)), [])"
    by (simp add: POST_def)
  from a b c show ?thesis by blast
qed

theorem blank_prompt_rejected_witness:
  "POST (\<lambda>b k. Inr JUndefined) (str ''2025-01-01T00:00:00.000Z'') (Some (str ''key''))
     (Some (JObj [(str ''prompt'', JStr [32, 9, 10]), (str ''duration'', JNum 5)]))
     (\<lambda>c. Rejected)
   = (JsonReply 400 (Failed (Literal ''Prompt is required and must be a non-empty string'')), [])
   \<and> POST (\<lambda>b k. Inr JUndefined) (str ''2025-01-01T00:00:00.000Z'') (Some (str ''key''))
     (Some (JObj [(str ''duration'', JNum 5)])) (\<lambda>c. Rejected)
   = (JsonReply 400 (Failed (Literal ''Prompt is required and must be a non-empty string'')), [])
   \<and> POST (\<lambda>b k. Inr JUndefined) (str ''2025-01-01T00:00:00.000Z'') (Some (str ''key''))
     (Some (JObj [(str ''prompt'', JStr [])])) (\<lambda>c. Rejected)
   = (JsonReply 400 (Failed (Literal ''Prompt is required and must be a non-empty string'')), [])
   \<and> POST (\<lambda>b k. Inr JUndefined) (str ''2025-01-01T00:00:00.000Z'') (Some (str ''key''))
     (Some JNull) (\<lambda>c. Rejected)
   = (JsonReply 500 (Failed (MessageOf TypeError)), [])"
proof -
  have w: "\<forall>c \<in> set [32, 9, 10]. isWhiteSpace c"
    by (simp add: isWhiteSpace_def)
  have 1: "POST (\<lambda>b k. Inr JUndefined) (str ''2025-01-01T00:00:00.000Z'') (Some (str ''key''))
     (Some (JObj [(str ''prompt'', JStr [32, 9, 10]), (str ''duration'', JNum 5)]))
     (\<lambda>c. Rejected)
   = (JsonReply 400 (Failed (Literal ''Prompt is required and must be a non-empty string'')), [])"
    using w blank_prompt_rejected
      [of "JObj [(str ''prompt'', JStr [32, 9, 10]), (str ''duration'', JNum 5)]"]
    by simp
  have 2: "POST (\<lambda>b k. Inr JUndefined) (str ''2025-01-01T00:00:00.000Z'') (Some (str ''key''))
     (Some (JObj [(str ''duration'', JNum 5)])) (\<lambda>c. Rejected)
   = (JsonReply 400 (Failed (Literal ''Prompt is required and must be a non-empty string'')), [])"
    using blank_prompt_rejected[of "JObj [(str ''duration'', JNum 5)]"]
    by simp
  have 3: "POST (\<lambda>b k. Inr JUndefined) (str ''2025-01-01T00:00:00.000Z'') (Some (str ''key''))
     (Some (JObj [(str ''prompt'', JStr [])])) (\<lambda>c. Rejected)
   = (JsonReply 400 (Failed (Literal ''Prompt is required and must be a non-empty string'')), [])"
    using blank_prompt_rejected[of "JObj [(str ''prompt'', JStr [])]"]
    by simp
  have 4: "POST (\<lambda>b k. Inr JUndefined) (str ''2025-01-01T00:00:00.000Z'') (Some (str ''key''))
     (Some JNull) (\<lambda>c. Rejected)
   = (JsonReply 500 (Failed (MessageOf TypeError)), [])"
    using blank_prompt_rejected[of JNull]
    by simp
  from 1 2 3 4 show ?thesis by simp
qed

text \<open>
  C9 as stated fails: a submit request with the body \<^verbatim>\<open>null\<close> has no prompt, and the
  handler answers it with status 500 (\<^verbatim>\<open>body.prompt\<close> throws a TypeError, which the
  \<^verbatim>\<open>catch\<close> reports), not with the validation failure and 400. The same holds for a
  body that is not JSON.
\<close>

theorem blank_prompt_null_body:
  "POST (\<lambda>b k. Inr JUndefined) (str ''2025-01-01T00:00:00.000Z'') (Some (str ''key''))
     (Some JNull) (\<lambda>c. Rejected)
   = (JsonReply 500 (Failed (MessageOf TypeError)), [])
   \<and> POST (\<lambda>b k. Inr JUndefined) (str ''2025-01-01T00:00:00.000Z'') (Some (str ''key''))
     None (\<lambda>c. Rejected)
   = (JsonReply 500 (Failed (MessageOf InvalidJson)), [])
   \<and> code (fst (POST (\<lambda>b k. Inr JUndefined) (str ''2025-01-01T00:00:00.000Z'')
                    (Some (str ''key'')) (Some JNull) (\<lambda>c. Rejected))) \<noteq> 400"
  by (simp add: POST_def)

text \<open>With a prompt that is not blank the handler does call the upstream service.\<close>

lemma POST_valid_calls_once:
  "snd (POST (\<lambda>b k. Inr JUndefined) (str ''2025-01-01T00:00:00.000Z'') (Some (str ''key''))
     (Some (JObj [(str ''prompt'', JStr (str '' a cat ''))])) (\<lambda>c. Rejected))
   = [\<lparr>c_prompt = str ''a cat'', c_size = JStr (str ''1920x1080''), c_duration = JNum 10\<rparr>]"
proof -
  have t: "trim (str '' a cat '') = str ''a cat''"
    by (simp add: trim_def str_def isWhiteSpace_def)
  then have v: "\<not> invalidPrompt (JStr (str '' a cat ''))"
    by (simp add: invalidPrompt_def)
  show ?thesis
    using v by (simp add: POST_def callSoraV2API_def Let_def t or_else_def sizeFor_default)
qed

section \<open>The polling loop\<close>

lemma run_Nil [simp]: "run s [] = s"
  by (simp add: run_def)

lemma run_Cons [simp]: "run s (e # es) = run (step s e) es"
  by (simp add: run_def)

lemma run_append: "run s (es @ es') = run (run s es) es'"
  by (simp add: run_def)

lemma step_cancelled:
  assumes "isCancelled s"
  shows "isCancelled (step s e) \<and> progress (step s e) = progress s \<and> error (step s e) = error s
       \<and> completions (step s e) = completions s \<and> fetches (step s e) = fetches s"
  using assms
  by (cases e) (simp_all add: fetchProgress_start_def fetchProgress_resolved_def
      fetchProgress_rejected_def)

lemma run_cancelled:
  assumes "isCancelled s"
  shows "isCancelled (run s es) \<and> progress (run s es) = progress s \<and> error (run s es) = error s
       \<and> completions (run s es) = completions s \<and> fetches (run s es) = fetches s"
  using assms
proof (induction es arbitrary: s)
  case Nil
  then show ?case by simp
next
  case (Cons e es)
  from step_cancelled[OF Cons.prems, of e] Cons.IH[of "step s e"]
  show ?case by simp
qed

text \<open>
  C4. After the cleanup of an activation, whatever happens to it later (a call in flight
  resolves or rejects, a timer event) changes nothing an observer sees: not the
  progress state, not the error state, not the number of completion callbacks, and no
  further fetch is issued.
\<close>

theorem deactivated_fetch_changes_nothing:
  "progress (run (step s Cleanup) es) = progress s
   \<and> error (run (step s Cleanup) es) = error s
   \<and> completions (run (step s Cleanup) es) = completions s
   \<and> fetches (run (step s Cleanup) es) = fetches s"
  using run_cancelled[of "step s Cleanup" es] by simp

lemma step_keeps_flag: "isCancelled s \<Longrightarrow> isCancelled (step s e)"
  by (simp add: step_cancelled)

lemma step_live_completions:
  assumes "\<not> isCancelled (step s e)"
  shows "\<not> isCancelled s \<and> completions (step s e) = completions s"
proof -
  from assms step_keeps_flag have live: "\<not> isCancelled s" by blast
  from assms live have "completions (step s e) = completions s"
    by (cases e)
      (auto simp: fetchProgress_start_def fetchProgress_resolved_def fetchProgress_rejected_def
        split: if_splits option.splits bool.splits)
  with live show ?thesis by simp
qed

lemma run_live_completions:
  "\<not> isCancelled (run s es) \<Longrightarrow> completions (run s es) = completions s"
proof (induction es arbitrary: s)
  case Nil
  then show ?case by simp
next
  case (Cons e es)
  from Cons.prems have live: "\<not> isCancelled (run (step s e) es)" by simp
  from Cons.IH[OF live] have c: "completions (run (step s e) es) = completions (step s e)" .
  from live run_cancelled[of "step s e" es] have "\<not> isCancelled (step s e)" by blast
  from step_live_completions[OF this] c show ?case by simp
qed

lemma activate_completions: "completions (activate videoId p e n) = n"
  by (simp add: activate_def)

text \<open>
  C5. Within one activation, started at \<open>n\<close> callbacks so far: when a result with status
  \<^verbatim>\<open>completed\<close> is observed, the completion callback has been called exactly once,
  and however the activation goes on it is never called again and no further fetch is
  issued; when a result with status \<^verbatim>\<open>failed\<close> is observed, the error state is set, no
  further fetch is issued and the completion callback is never called.
\<close>

theorem terminal_status_stops_polling:
  assumes "s = run (activate videoId p e n) es0"
    and "\<not> isCancelled s" and "0 < inFlight s"
    and "r_success response" and "r_data response = Some d"
  shows "(p_status d = JStr (str ''completed'') \<longrightarrow>
            completions (step s (Resolve response)) = n + 1
            \<and> completions (run (step s (Resolve response)) es) = n + 1
            \<and> fetches (run (step s (Resolve response)) es) = fetches s)
       \<and> (p_status d = JStr (str ''failed'') \<longrightarrow>
            error (run (step s (Resolve response)) es) = Some (str ''Video generation failed'')
            \<and> fetches (run (step s (Resolve response)) es) = fetches s
            \<and> completions (run (step s (Resolve response)) es) = n)"
proof -
  from assms(1,2) run_live_completions[of "activate videoId p e n" es0]
  have n: "completions s = n" by (simp add: activate_completions)
  let ?s' = "step s (Resolve response)"
  have compl: "p_status d = JStr (str ''completed'') \<Longrightarrow>
     isCancelled ?s' \<and> completions ?s' = n + 1 \<and> fetches ?s' = fetches s"
    using assms(2-5) n by (simp add: fetchProgress_resolved_def)
  have failed: "p_status d = JStr (str ''failed'') \<Longrightarrow>
     isCancelled ?s' \<and> completions ?s' = n \<and> fetches ?s' = fetches s
     \<and> error ?s' = Some (str ''Video generation failed'')"
    using assms(2-5) n by (simp add: fetchProgress_resolved_def)
  from compl failed run_cancelled[of ?s' es] show ?thesis by auto
qed

text \<open>An activation calls the completion callback at most once.\<close>

lemma at_most_one_completion:
  "completions (run (activate videoId p e n) es) = n
   \<or> isCancelled (run (activate videoId p e n) es)
     \<and> completions (run (activate videoId p e n) es) = n + 1"
proof (induction es rule: rev_induct)
  case Nil
  then show ?case by (simp add: activate_def)
next
  case (snoc x xs)
  let ?s = "run (activate videoId p e n) xs"
  have r: "run (activate videoId p e n) (xs @ [x]) = step ?s x"
    by (simp add: run_append)
  show ?case
  proof (cases "isCancelled ?s")
    case True
    from step_cancelled[OF True, of x] snoc.IH show ?thesis
      unfolding r by auto
  next
    case False
    with snoc.IH have n: "completions ?s = n" by auto
    from False n show ?thesis
      unfolding r
      by (cases x)
        (auto simp: fetchProgress_start_def fetchProgress_resolved_def fetchProgress_rejected_def
          split: if_splits option.splits bool.splits)
  qed
qed

theorem deactivated_fetch_changes_nothing_witness:
  "progress (run (step (activate (str ''v1'') None None 0) Cleanup)
      [Resolve \<lparr>r_success = True,
                r_data = Some \<lparr>p_id = JStr (str ''v1''), p_progress = JNum 100,
                                p_status = JStr (str ''completed''),
                                p_currentStep = JStr (str ''succeeded''),
                                p_estimatedTimeRemaining = JUndefined\<rparr>,
                r_error = None\<rparr>]) = None
   \<and> completions (run (step (activate (str ''v1'') None None 0) Cleanup)
      [Resolve \<lparr>r_success = True,
                r_data = Some \<lparr>p_id = JStr (str ''v1''), p_progress = JNum 100,
                                p_status = JStr (str ''completed''),
                                p_currentStep = JStr (str ''succeeded''),
                                p_estimatedTimeRemaining = JUndefined\<rparr>,
                r_error = None\<rparr>]) = 0
   \<and> completions (run (activate (str ''v1'') None None 0)
      [Resolve \<lparr>r_success = True,
                r_data = Some \<lparr>p_id = JStr (str ''v1''), p_progress = JNum 100,
                                p_status = JStr (str ''completed''),
                                p_currentStep = JStr (str ''succeeded''),
                                p_estimatedTimeRemaining = JUndefined\<rparr>,
                r_error = None\<rparr>]) = 1"
proof -
  let ?response = "\<lparr>r_success = True,
                r_data = Some \<lparr>p_id = JStr (str ''v1''), p_progress = JNum 100,
                                p_status = JStr (str ''completed''),
                                p_currentStep = JStr (str ''succeeded''),
                                p_estimatedTimeRemaining = JUndefined\<rparr>,
                r_error = None\<rparr>"
  from deactivated_fetch_changes_nothing[of "activate (str ''v1'') None None 0" "[Resolve ?response]"]
  have "progress (run (step (activate (str ''v1'') None None 0) Cleanup) [Resolve ?response]) = None"
    and "completions (run (step (activate (str ''v1'') None None 0) Cleanup) [Resolve ?response]) = 0"
    by (simp_all add: activate_def)
  moreover have "completions (run (activate (str ''v1'') None None 0) [Resolve ?response]) = 1"
    by (simp add: activate_def fetchProgress_resolved_def)
  ultimately show ?thesis by simp
qed

theorem terminal_status_stops_polling_witness:
  "completions
     (run (step (run (activate (str ''v1'') None None 0) [Tick])
            (Resolve \<lparr>r_success = True,
                      r_data = Some \<lparr>p_id = JStr (str ''v1''), p_progress = JNum 100,
                                      p_status = JStr (str ''completed''),
                                      p_currentStep = JStr (str ''succeeded''),
                                      p_estimatedTimeRemaining = JUndefined\<rparr>,
                      r_error = None\<rparr>))
          [Tick,
           Resolve \<lparr>r_success = True,
                    r_data = Some \<lparr>p_id = JStr (str ''v1''), p_progress = JNum 100,
                                    p_status = JStr (str ''completed''),
                                    p_currentStep = JStr (str ''succeeded''),
                                    p_estimatedTimeRemaining = JUndefined\<rparr>,
                    r_error = None\<rparr>,
           Tick]) = 1
   \<and> fetches
     (run (step (run (activate (str ''v1'') None None 0) [Tick])
            (Resolve \<lparr>r_success = True,
                      r_data = Some \<lparr>p_id = JStr (str ''v1''), p_progress = JNum 100,
                                      p_status = JStr (str ''completed''),
                                      p_currentStep = JStr (str ''succeeded''),
                                      p_estimatedTimeRemaining = JUndefined\<rparr>,
                      r_error = None\<rparr>))
          [Tick,
           Resolve \<lparr>r_success = True,
                    r_data = Some \<lparr>p_id = JStr (str ''v1''), p_progress = JNum 100,
                                    p_status = JStr (str ''completed''),
                                    p_currentStep = JStr (str ''succeeded''),
                                    p_estimatedTimeRemaining = JUndefined\<rparr>,
                    r_error = None\<rparr>,
           Tick]) = 2
   \<and> error
     (run (step (run (activate (str ''v1'') None None 0) [Tick])
            (Resolve \<lparr>r_success = True,
                      r_data = Some \<lparr>p_id = JStr (str ''v1''), p_progress = JNum 0,
                                      p_status = JStr (str ''failed''),
                                      p_currentStep = JStr (str ''failed''),
                                      p_estimatedTimeRemaining = JUndefined\<rparr>,
                      r_error = None\<rparr>))
          [Tick,
           Resolve \<lparr>r_success = True,
                    r_data = Some \<lparr>p_id = JStr (str ''v1''), p_progress = JNum 100,
                                    p_status = JStr (str ''completed''),
                                    p_currentStep = JStr (str ''succeeded''),
                                    p_estimatedTimeRemaining = JUndefined\<rparr>,
                    r_error = None\<rparr>,
           Tick]) = Some (str ''Video generation failed'')
   \<and> completions
     (run (step (run (activate (str ''v1'') None None 0) [Tick])
            (Resolve \<lparr>r_success = True,
                      r_data = Some \<lparr>p_id = JStr (str ''v1''), p_progress = JNum 0,
                                      p_status = JStr (str ''failed''),
                                      p_currentStep = JStr (str ''failed''),
                                      p_estimatedTimeRemaining = JUndefined\<rparr>,
                      r_error = None\<rparr>))
          [Tick,
           Resolve \<lparr>r_success = True,
                    r_data = Some \<lparr>p_id = JStr (str ''v1''), p_progress = JNum 100,
                                    p_status = JStr (str ''completed''),
                                    p_currentStep = JStr (str ''succeeded''),
                                    p_estimatedTimeRemaining = JUndefined\<rparr>,
                    r_error = None\<rparr>,
           Tick]) = 0"
proof -
  let ?ok = "\<lparr>p_id = JStr (str ''v1''), p_progress = JNum 100,
             p_status = JStr (str ''completed''), p_currentStep = JStr (str ''succeeded''),
             p_estimatedTimeRemaining = JUndefined\<rparr>"
  let ?bad = "\<lparr>p_id = JStr (str ''v1''), p_progress = JNum 0,
              p_status = JStr (str ''failed''), p_currentStep = JStr (str ''failed''),
              p_estimatedTimeRemaining = JUndefined\<rparr>"
  let ?completed = "\<lparr>r_success = True, r_data = Some ?ok, r_error = None\<rparr>"
  let ?failed = "\<lparr>r_success = True, r_data = Some ?bad, r_error = None\<rparr>"
  let ?a = "activate (str ''v1'') None None 0"
  let ?s = "run ?a [Tick]"
  have live: "\<not> isCancelled ?s" and fl: "0 < inFlight ?s" and f: "fetches ?s = 2"
    by (simp_all add: activate_def fetchProgress_start_def)
  from terminal_status_stops_polling[OF refl live fl, of ?completed ?ok
      "[Tick, Resolve ?completed, Tick]"] f
  have 1: "completions (run (step ?s (Resolve ?completed)) [Tick, Resolve ?completed, Tick]) = 1"
    and 2: "fetches (run (step ?s (Resolve ?completed)) [Tick, Resolve ?completed, Tick]) = 2"
    by simp_all
  from terminal_status_stops_polling[OF refl live fl, of ?failed ?bad
      "[Tick, Resolve ?completed, Tick]"]
  have 3: "error (run (step ?s (Resolve ?failed)) [Tick, Resolve ?completed, Tick])
            = Some (str ''Video generation failed'')"
    and 4: "completions (run (step ?s (Resolve ?failed)) [Tick, Resolve ?completed, Tick]) = 0"
    by simp_all
  from 1 2 3 4 show ?thesis by blast
qed

end
